theory Spec2Isabelle
  imports Complex_Main "HOL-Library.AList" "HOL-Library.Multiset"
begin

section \<open>Data model\<close>

text \<open>
  The records follow \<^verbatim>\<open>MediaItem\<close> (src/src/Composition.tsx) and \<^verbatim>\<open>Track\<close>,
  \<^verbatim>\<open>EditOperationParameters\<close>, \<^verbatim>\<open>EditOperation\<close>, \<^verbatim>\<open>TimelineManager\<close>
  (src/src/utils/timelineUtils.ts). Several interfaces of the source have fields called
  \<^verbatim>\<open>id\<close>, \<^verbatim>\<open>type\<close> and \<^verbatim>\<open>parameters\<close>; a record field is a global constant, so these
  carry a prefix here (\<open>item_id\<close>, \<open>track_id\<close>, \<open>op_id\<close>, ...). Frame numbers and pixel
  geometry are integers, the three visual transforms are reals. A TypeScript string-literal
  union is a datatype, an optional field an \<open>option\<close>.

  Two fields that the interfaces declare as required are optional here, because the server
  stores them as they arrive in a request, without a check, and reads them later: the name
  of a track (\<^verbatim>\<open>handleCreateTrack\<close> passes \<^verbatim>\<open>params.name!\<close> on, and \<^verbatim>\<open>RequestParams.name\<close> is
  optional) and the parameter bag of a directive (\<^verbatim>\<open>handleSubmitDirectives\<close> passes
  \<^verbatim>\<open>params.directives!\<close> on). \<open>None\<close> is the \<^verbatim>\<open>undefined\<close> of an absent field.

  Objects are values here: every \<^verbatim>\<open>MediaItem\<close> object is held by one item list, which is how
  every caller in the repository builds them (a fresh object literal per call).
\<close>

datatype media_type = Video | Audio | Image

datatype track_kind = VideoTrack | AudioTrack | SubtitleTrack

record MediaItem =
  item_id :: string
  item_type :: media_type
  item_src :: string
  startFrame :: int
  durationInFrames :: int
  item_x :: int
  item_y :: int
  item_width :: int
  item_height :: int
  item_opacity :: "real option"
  item_scale :: "real option"
  item_rotation :: "real option"

record Track =
  track_id :: string
  track_name :: "string option"
  track_type :: track_kind
  items :: "MediaItem list"
  isLocked :: bool
  isVisible :: bool
  volume :: "real option"

record EditOperationParameters =
  p_action :: "string option"
  p_item :: "MediaItem option"
  p_oldStartFrame :: "int option"
  p_newStartFrame :: "int option"
  p_oldTrackId :: "string option"
  p_newTrackId :: "string option"
  p_oldDuration :: "int option"
  p_newDuration :: "int option"
  p_trimStart :: "int option"
  p_trimEnd :: "int option"
  p_splitFrame :: "int option"
  p_secondPartId :: "string option"

text \<open>The \<^verbatim>\<open>type\<close> field of an \<^verbatim>\<open>EditOperation\<close>:
  \<^verbatim>\<open>'cut' | 'trim' | 'move' | 'copy' | 'delete' | 'split'\<close>.\<close>

datatype op_kind = Cut | Trim | Move | Copy | Delete | Split

record EditOperation =
  op_id :: string
  op_type :: op_kind
  op_trackId :: string
  op_itemId :: string
  timestamp :: int
  parameters :: EditOperationParameters

text \<open>The \<^verbatim>\<open>Map<string, Track>\<close> of the manager is an association list in insertion order:
  \<^verbatim>\<open>Map.set\<close> is \<^const>\<open>AList.update\<close> (a present key keeps its place, a new one goes
  last), \<^verbatim>\<open>Map.get\<close> is \<^const>\<open>map_of\<close>, \<^verbatim>\<open>Map.delete\<close> is \<^const>\<open>AList.delete\<close>. The two
  stacks are arrays whose top is the last element.\<close>

record TimelineManager =
  tracks :: "(string \<times> Track) list"
  currentFrame :: int
  totalDuration :: int
  fps :: int
  undoStack :: "EditOperation list"
  redoStack :: "EditOperation list"

definition new_TimelineManager :: "int \<Rightarrow> TimelineManager" where
  "new_TimelineManager f =
     \<lparr>tracks = [], currentFrame = 0, totalDuration = 0, fps = f,
      undoStack = [], redoStack = []\<rparr>"

definition no_parameters :: EditOperationParameters where
  "no_parameters =
     \<lparr>p_action = None, p_item = None, p_oldStartFrame = None, p_newStartFrame = None,
      p_oldTrackId = None, p_newTrackId = None, p_oldDuration = None, p_newDuration = None,
      p_trimStart = None, p_trimEnd = None, p_splitFrame = None, p_secondPartId = None\<rparr>"

section \<open>The timeline manager (src/src/utils/timelineUtils.ts)\<close>

text \<open>
  \<^verbatim>\<open>generateId()\<close> concatenates the clock and a random number, and \<^verbatim>\<open>Date.now()\<close> reads the
  clock: what they return is an argument of each operation below (\<open>newId\<close>, \<open>opId\<close>,
  \<open>now\<close>). A method that returns a boolean and mutates the manager returns the pair of
  both.
\<close>

definition getTrack :: "TimelineManager \<Rightarrow> string \<Rightarrow> Track option" where
  "getTrack tm trackId = map_of (tracks tm) trackId"

definition getTracks :: "TimelineManager \<Rightarrow> Track list" where
  "getTracks tm = map snd (tracks tm)"

definition getTotalDuration :: "TimelineManager \<Rightarrow> int" where
  "getTotalDuration tm = totalDuration tm"

text \<open>\<^verbatim>\<open>Array.prototype.findIndex\<close>: the first index whose element satisfies the predicate,
  \<open>None\<close> for the source's \<open>-1\<close>. \<^verbatim>\<open>Array.prototype.find\<close> returns a reference to that
  same element, so a write through it is a write at this index.\<close>

fun findIndex :: "('a \<Rightarrow> bool) \<Rightarrow> 'a list \<Rightarrow> nat option" where
  "findIndex P [] = None"
| "findIndex P (a # as) =
     (if P a then Some 0 else (case findIndex P as of None \<Rightarrow> None | Some i \<Rightarrow> Some (Suc i)))"

text \<open>\<^verbatim>\<open>items.splice(i, 1)\<close>.\<close>

definition splice1 :: "nat \<Rightarrow> 'a list \<Rightarrow> 'a list" where
  "splice1 i xs = take i xs @ drop (Suc i) xs"

definition createTrack ::
  "TimelineManager \<Rightarrow> string option \<Rightarrow> track_kind \<Rightarrow> string
     \<Rightarrow> Track \<times> TimelineManager" where
  "createTrack tm name kind newId =
     (let track = \<lparr>track_id = newId, track_name = name, track_type = kind, items = [],
                    isLocked = False, isVisible = True,
                    volume = (if kind = AudioTrack then Some 1 else None)\<rparr>
      in (track, tm\<lparr>tracks := AList.update (track_id track) track (tracks tm)\<rparr>))"

definition deleteTrack :: "TimelineManager \<Rightarrow> string \<Rightarrow> bool \<times> TimelineManager" where
  "deleteTrack tm trackId =
     (map_of (tracks tm) trackId \<noteq> None, tm\<lparr>tracks := AList.delete trackId (tracks tm)\<rparr>)"

text \<open>The interval test of \<^verbatim>\<open>resolveOverlaps\<close>, with the new item first.\<close>

definition overlaps :: "MediaItem \<Rightarrow> MediaItem \<Rightarrow> bool" where
  "overlaps newItem item =
     (\<not> (startFrame newItem + durationInFrames newItem \<le> startFrame item
         \<or> startFrame newItem \<ge> startFrame item + durationInFrames item))"

text \<open>The callback that \<^verbatim>\<open>resolveOverlaps\<close> runs on every item of the track, in place.\<close>

definition resolveItem :: "MediaItem \<Rightarrow> MediaItem \<Rightarrow> MediaItem" where
  "resolveItem newItem item =
     (let newItemEnd = startFrame newItem + durationInFrames newItem in
      if item_id item = item_id newItem then item
      else
        let itemEnd = startFrame item + durationInFrames item in
        if \<not> (newItemEnd \<le> startFrame item \<or> startFrame newItem \<ge> itemEnd) then
          if startFrame newItem < startFrame item then item\<lparr>startFrame := newItemEnd\<rparr>
          else item\<lparr>durationInFrames := max 1 (startFrame newItem - startFrame item)\<rparr>
        else item)"

text \<open>\<^verbatim>\<open>track.items.forEach(...)\<close>: one visit per element, first to last.\<close>

fun forEachItem :: "(MediaItem \<Rightarrow> MediaItem) \<Rightarrow> MediaItem list \<Rightarrow> MediaItem list" where
  "forEachItem f [] = []"
| "forEachItem f (item # rest) = f item # forEachItem f rest"

definition resolveOverlaps :: "Track \<Rightarrow> MediaItem \<Rightarrow> Track" where
  "resolveOverlaps track newItem =
     track\<lparr>items := forEachItem (resolveItem newItem) (items track)\<rparr>"

text \<open>\<^verbatim>\<open>updateTotalDuration\<close>: the two nested \<^verbatim>\<open>forEach\<close> loops over tracks and items,
  with the running maximum starting at 0.\<close>

definition maxItemEnd :: "MediaItem list \<Rightarrow> int \<Rightarrow> int" where
  "maxItemEnd its maxDuration =
     fold (\<lambda>item m. max m (startFrame item + durationInFrames item)) its maxDuration"

definition updateTotalDuration :: "TimelineManager \<Rightarrow> TimelineManager" where
  "updateTotalDuration tm =
     tm\<lparr>totalDuration := fold (\<lambda>track m. maxItemEnd (items track) m) (getTracks tm) 0\<rparr>"

definition recordOperation :: "TimelineManager \<Rightarrow> EditOperation \<Rightarrow> TimelineManager" where
  "recordOperation tm operation =
     (let stack = undoStack tm @ [operation] in
      tm\<lparr>undoStack := (if length stack > 100 then tl stack else stack), redoStack := []\<rparr>)"

definition addItemToTrack ::
  "TimelineManager \<Rightarrow> string \<Rightarrow> MediaItem \<Rightarrow> int option \<Rightarrow> string \<Rightarrow> int
     \<Rightarrow> bool \<times> TimelineManager" where
  "addItemToTrack tm trackId item0 insertFrame opId now =
     (case getTrack tm trackId of
        None \<Rightarrow> (False, tm)
      | Some track \<Rightarrow>
          if isLocked track then (False, tm)
          else
            let item = (case insertFrame of None \<Rightarrow> item0
                        | Some f \<Rightarrow> item0\<lparr>startFrame := f\<rparr>);
                track1 = resolveOverlaps track item;
                track2 = track1\<lparr>items := items track1 @ [item]\<rparr>;
                tm1 = updateTotalDuration (tm\<lparr>tracks := AList.update trackId track2 (tracks tm)\<rparr>)
            in (True, recordOperation tm1
                  \<lparr>op_id = opId, op_type = Move, op_trackId = trackId, op_itemId = item_id item,
                   timestamp = now,
                   parameters = no_parameters\<lparr>p_action := Some ''add'', p_item := Some item\<rparr>\<rparr>))"

definition removeItemFromTrack ::
  "TimelineManager \<Rightarrow> string \<Rightarrow> string \<Rightarrow> string \<Rightarrow> int \<Rightarrow> bool \<times> TimelineManager" where
  "removeItemFromTrack tm trackId itemId opId now =
     (case getTrack tm trackId of
        None \<Rightarrow> (False, tm)
      | Some track \<Rightarrow>
          if isLocked track then (False, tm)
          else
            (case findIndex (\<lambda>item. item_id item = itemId) (items track) of
               None \<Rightarrow> (False, tm)
             | Some itemIndex \<Rightarrow>
                 let removedItem = items track ! itemIndex;
                     track1 = track\<lparr>items := splice1 itemIndex (items track)\<rparr>;
                     tm1 = updateTotalDuration
                             (tm\<lparr>tracks := AList.update trackId track1 (tracks tm)\<rparr>)
                 in (True, recordOperation tm1
                       \<lparr>op_id = opId, op_type = Delete, op_trackId = trackId, op_itemId = itemId,
                        timestamp = now,
                        parameters = no_parameters\<lparr>p_action := Some ''remove'',
                                                   p_item := Some removedItem\<rparr>\<rparr>)))"

text \<open>\<^verbatim>\<open>!newTrackId || newTrackId === trackId\<close> keeps the move inside the source track: an
  absent or empty \<^verbatim>\<open>newTrackId\<close> is falsy. \<open>crossTarget\<close> is the other track's key when the
  move leaves the source track.\<close>

definition crossTarget :: "string \<Rightarrow> string option \<Rightarrow> string option" where
  "crossTarget trackId newTrackId =
     (case newTrackId of
        None \<Rightarrow> None
      | Some t \<Rightarrow> if t = [] \<or> t = trackId then None else Some t)"

definition moveItem ::
  "TimelineManager \<Rightarrow> string \<Rightarrow> string \<Rightarrow> int \<Rightarrow> string option \<Rightarrow> string \<Rightarrow> int
     \<Rightarrow> bool \<times> TimelineManager" where
  "moveItem tm trackId itemId newStartFrame newTrackId opId now =
     (case getTrack tm trackId of
        None \<Rightarrow> (False, tm)
      | Some sourceTrack \<Rightarrow>
          if isLocked sourceTrack then (False, tm)
          else
            (case findIndex (\<lambda>item. item_id item = itemId) (items sourceTrack) of
               None \<Rightarrow> (False, tm)
             | Some itemIndex \<Rightarrow>
                 let item0 = items sourceTrack ! itemIndex;
                     oldStartFrame = startFrame item0;
                     item = item0\<lparr>startFrame := newStartFrame\<rparr>;
                     operation =
                       \<lparr>op_id = opId, op_type = Move, op_trackId = trackId, op_itemId = itemId,
                        timestamp = now,
                        parameters = no_parameters
                          \<lparr>p_oldStartFrame := Some oldStartFrame,
                           p_newStartFrame := Some newStartFrame,
                           p_oldTrackId := Some trackId,
                           p_newTrackId := Some (case crossTarget trackId newTrackId of
                                                  None \<Rightarrow> trackId | Some t \<Rightarrow> t)\<rparr>\<rparr>
                 in
                 (case crossTarget trackId newTrackId of
                    None \<Rightarrow>
                      let source1 = sourceTrack\<lparr>items := (items sourceTrack)[itemIndex := item]\<rparr>;
                          source2 = resolveOverlaps source1 item;
                          tm1 = updateTotalDuration
                                  (tm\<lparr>tracks := AList.update trackId source2 (tracks tm)\<rparr>)
                      in (True, recordOperation tm1 operation)
                  | Some target \<Rightarrow>
                      (case getTrack tm target of
                         None \<Rightarrow> (False, tm)
                       | Some targetTrack \<Rightarrow>
                           if isLocked targetTrack then (False, tm)
                           else
                             let source1 = sourceTrack\<lparr>items := splice1 itemIndex (items sourceTrack)\<rparr>;
                                 target1 = resolveOverlaps targetTrack item;
                                 target2 = target1\<lparr>items := items target1 @ [item]\<rparr>;
                                 tm1 = updateTotalDuration
                                         (tm\<lparr>tracks := AList.update target target2
                                                (AList.update trackId source1 (tracks tm))\<rparr>)
                             in (True, recordOperation tm1 operation)))))"

definition trimItem ::
  "TimelineManager \<Rightarrow> string \<Rightarrow> string \<Rightarrow> int option \<Rightarrow> int option \<Rightarrow> string \<Rightarrow> int
     \<Rightarrow> bool \<times> TimelineManager" where
  "trimItem tm trackId itemId trimStart trimEnd opId now =
     (case getTrack tm trackId of
        None \<Rightarrow> (False, tm)
      | Some track \<Rightarrow>
          if isLocked track then (False, tm)
          else
            (case findIndex (\<lambda>item. item_id item = itemId) (items track) of
               None \<Rightarrow> (False, tm)
             | Some itemIndex \<Rightarrow>
                 let item0 = items track ! itemIndex;
                     oldDuration = durationInFrames item0;
                     item1 = (case trimStart of
                                None \<Rightarrow> item0
                              | Some ts \<Rightarrow>
                                  let trimAmount = ts - startFrame item0 in
                                  item0\<lparr>startFrame := ts,
                                        durationInFrames :=
                                          max 1 (durationInFrames item0 - trimAmount)\<rparr>);
                     item2 = (case trimEnd of
                                None \<Rightarrow> item1
                              | Some te \<Rightarrow>
                                  let newDuration = te - startFrame item1 in
                                  item1\<lparr>durationInFrames := max 1 newDuration\<rparr>);
                     track1 = track\<lparr>items := (items track)[itemIndex := item2]\<rparr>;
                     tm1 = updateTotalDuration
                             (tm\<lparr>tracks := AList.update trackId track1 (tracks tm)\<rparr>)
                 in (True, recordOperation tm1
                       \<lparr>op_id = opId, op_type = Trim, op_trackId = trackId, op_itemId = itemId,
                        timestamp = now,
                        parameters = no_parameters
                          \<lparr>p_oldDuration := Some oldDuration,
                           p_newDuration := Some (durationInFrames item2),
                           p_trimStart := trimStart, p_trimEnd := trimEnd\<rparr>\<rparr>)))"

text \<open>\<^verbatim>\<open>splitItem\<close> calls \<^verbatim>\<open>generateId()\<close> twice: \<open>newId\<close> for the second part, \<open>opId\<close> for
  the log entry. It does not call \<^verbatim>\<open>updateTotalDuration\<close>.\<close>

definition splitItem ::
  "TimelineManager \<Rightarrow> string \<Rightarrow> string \<Rightarrow> int \<Rightarrow> string \<Rightarrow> string \<Rightarrow> int
     \<Rightarrow> bool \<times> TimelineManager" where
  "splitItem tm trackId itemId splitFrame newId opId now =
     (case getTrack tm trackId of
        None \<Rightarrow> (False, tm)
      | Some track \<Rightarrow>
          if isLocked track then (False, tm)
          else
            (case findIndex (\<lambda>item. item_id item = itemId) (items track) of
               None \<Rightarrow> (False, tm)
             | Some itemIndex \<Rightarrow>
                 let item = items track ! itemIndex;
                     relativeFrame = splitFrame - startFrame item
                 in
                 if relativeFrame \<le> 0 \<or> relativeFrame \<ge> durationInFrames item then (False, tm)
                 else
                   let secondPart = item\<lparr>item_id := newId, startFrame := splitFrame,
                                          durationInFrames := durationInFrames item - relativeFrame\<rparr>;
                       firstPart = item\<lparr>durationInFrames := relativeFrame\<rparr>;
                       track1 = track\<lparr>items := (items track)[itemIndex := firstPart] @ [secondPart]\<rparr>;
                       tm1 = tm\<lparr>tracks := AList.update trackId track1 (tracks tm)\<rparr>
                   in (True, recordOperation tm1
                         \<lparr>op_id = opId, op_type = Split, op_trackId = trackId, op_itemId = itemId,
                          timestamp = now,
                          parameters = no_parameters
                            \<lparr>p_splitFrame := Some splitFrame,
                             p_secondPartId := Some (item_id secondPart)\<rparr>\<rparr>)))"

text \<open>\<^verbatim>\<open>executeOperation\<close> and \<^verbatim>\<open>executeReverseOperation\<close> only write the operation to the
  console: the manager is as it was.\<close>

definition executeOperation :: "TimelineManager \<Rightarrow> EditOperation \<Rightarrow> TimelineManager" where
  "executeOperation tm operation = tm"

definition executeReverseOperation :: "TimelineManager \<Rightarrow> EditOperation \<Rightarrow> TimelineManager" where
  "executeReverseOperation tm operation = tm"

definition undo :: "TimelineManager \<Rightarrow> bool \<times> TimelineManager" where
  "undo tm =
     (case rev (undoStack tm) of
        [] \<Rightarrow> (False, tm)
      | operation # below \<Rightarrow>
          let tm1 = executeReverseOperation (tm\<lparr>undoStack := rev below\<rparr>) operation
          in (True, tm1\<lparr>redoStack := redoStack tm1 @ [operation]\<rparr>))"

definition redo :: "TimelineManager \<Rightarrow> bool \<times> TimelineManager" where
  "redo tm =
     (case rev (redoStack tm) of
        [] \<Rightarrow> (False, tm)
      | operation # below \<Rightarrow>
          let tm1 = executeOperation (tm\<lparr>redoStack := rev below\<rparr>) operation
          in (True, tm1\<lparr>undoStack := undoStack tm1 @ [operation]\<rparr>))"

text \<open>\<^verbatim>\<open>export()\<close> and \<^verbatim>\<open>import(data)\<close>. \<^verbatim>\<open>data.fps || 30\<close> replaces a zero frame rate
  by 30; \<^verbatim>\<open>|| 0\<close> leaves a number as it is.\<close>

record TimelineExportData =
  ex_tracks :: "Track list"
  ex_currentFrame :: int
  ex_totalDuration :: int
  ex_fps :: int

definition exportTimeline :: "TimelineManager \<Rightarrow> TimelineExportData" where
  "exportTimeline tm =
     \<lparr>ex_tracks = getTracks tm, ex_currentFrame = currentFrame tm,
      ex_totalDuration = totalDuration tm, ex_fps = fps tm\<rparr>"

definition importTimeline :: "TimelineManager \<Rightarrow> TimelineExportData \<Rightarrow> TimelineManager" where
  "importTimeline tm data =
     tm\<lparr>tracks := fold (\<lambda>track ts. AList.update (track_id track) track ts) (ex_tracks data) [],
        currentFrame := ex_currentFrame data,
        totalDuration := ex_totalDuration data,
        fps := (if ex_fps data = 0 then 30 else ex_fps data)\<rparr>"

section \<open>Editing sessions and the server (src/unnamed/part_003)\<close>

text \<open>
  \<^verbatim>\<open>EditingDirective\<close>, \<^verbatim>\<open>GeneratedAsset\<close>, \<^verbatim>\<open>EditingStatus\<close> and \<^verbatim>\<open>EditingSession\<close>. The
  untyped bags (\<^verbatim>\<open>style\<close>, \<^verbatim>\<open>generationParams\<close>), the media manager and the save date of
  a session are never read by the code below and are left out. An asset's payload
  (\<^verbatim>\<open>ArrayBuffer | string\<close>) is a string.
\<close>

datatype AgentType = Director | BgmGenerator | SfxGenerator | TtsGenerator | Editor

datatype asset_kind = Bgm | Sfx | Tts | ImageAsset | VideoAsset

record AssetMetadata =
  md_duration :: "real option"
  filename :: string
  mimeType :: string
  md_description :: "string option"
  tags :: "string list option"

record GeneratedAsset =
  asset_id :: string
  asset_type :: asset_kind
  agentId :: string
  asset_data :: string
  metadata :: AssetMetadata

datatype directive_kind = CutSequence | AddBgm | AddSfx | AddText | AddTransition | ApplyEffect

record DirectiveParameters =
  startTime :: "real option"
  endTime :: "real option"
  position :: "(int \<times> int) option"
  asset :: "GeneratedAsset option"
  dp_text :: "string option"
  effect :: "string option"

record EditingDirective =
  dir_id :: string
  dir_type :: directive_kind
  target :: "string option"
  dir_parameters :: "DirectiveParameters option"
  priority :: int
  description :: string

datatype status_kind = Idle | Processing | Completed | Error

record EditingStatus =
  st_sessionId :: string
  currentStep :: nat
  totalSteps :: nat
  status :: status_kind
  message :: string
  st_completedDirectives :: "string list"
  st_pendingDirectives :: "string list"
  st_generatedAssets :: "GeneratedAsset list"

record EditingSession =
  sessionId :: string
  timelineManager :: TimelineManager
  isDirty :: bool
  directorAgent :: "string option"
  connectedAgents :: "(AgentType \<times> string) list"
  pendingDirectives :: "EditingDirective list"
  completedDirectives :: "string list"
  generatedAssets :: "(string \<times> GeneratedAsset) list"
  editingStatus :: EditingStatus

text \<open>A number inside a template literal: its decimal digits.\<close>

fun showNat :: "nat \<Rightarrow> string" where
  "showNat n =
     (if n < 10 then [''0123456789'' ! n]
      else showNat (n div 10) @ [''0123456789'' ! (n mod 10)])"

declare showNat.simps [simp del]

text \<open>\<^verbatim>\<open>String.prototype.includes\<close>.\<close>

fun str_includes :: "string \<Rightarrow> string \<Rightarrow> bool" where
  "str_includes [] sub = (sub = [])"
| "str_includes (c # cs) sub = (take (length sub) (c # cs) = sub \<or> str_includes cs sub)"

definition new_EditingSession :: "string \<Rightarrow> EditingSession" where
  "new_EditingSession sid =
     \<lparr>sessionId = sid, timelineManager = new_TimelineManager 30, isDirty = False,
      directorAgent = None, connectedAgents = [], pendingDirectives = [],
      completedDirectives = [], generatedAssets = [],
      editingStatus =
        \<lparr>st_sessionId = sid, currentStep = 0, totalSteps = 0, status = Idle,
         message = ''Session created'', st_completedDirectives = [],
         st_pendingDirectives = [], st_generatedAssets = []\<rparr>\<rparr>"

definition updateEditingStatus :: "EditingSession \<Rightarrow> EditingSession" where
  "updateEditingStatus s =
     s\<lparr>editingStatus :=
        \<lparr>st_sessionId = sessionId s,
         currentStep = length (completedDirectives s),
         totalSteps = length (completedDirectives s) + length (pendingDirectives s),
         status = (if length (pendingDirectives s) > 0 then Processing else Completed),
         message = showNat (length (completedDirectives s)) @ '' tasks completed, ''
                   @ showNat (length (pendingDirectives s)) @ '' pending'',
         st_completedDirectives = completedDirectives s,
         st_pendingDirectives = map dir_id (pendingDirectives s),
         st_generatedAssets = map snd (generatedAssets s)\<rparr>\<rparr>"

definition registerAgent :: "EditingSession \<Rightarrow> AgentType \<Rightarrow> string \<Rightarrow> EditingSession" where
  "registerAgent s agentType aid =
     (let s1 = s\<lparr>connectedAgents := AList.update agentType aid (connectedAgents s)\<rparr>
      in if agentType = Director then s1\<lparr>directorAgent := Some aid\<rparr> else s1)"

text \<open>\<^verbatim>\<open>pendingDirectives.sort((a, b) => a.priority - b.priority)\<close>: the array sort of the
  language is stable, and this comparator orders by priority, so the call is the stable
  sort \<^const>\<open>sort_key\<close> on \<^const>\<open>priority\<close>.\<close>

definition addDirectives :: "EditingSession \<Rightarrow> EditingDirective list \<Rightarrow> EditingSession" where
  "addDirectives s directives =
     updateEditingStatus
       (s\<lparr>pendingDirectives := sort_key priority (pendingDirectives s @ directives)\<rparr>)"

definition addGeneratedAsset :: "EditingSession \<Rightarrow> GeneratedAsset \<Rightarrow> EditingSession" where
  "addGeneratedAsset s a =
     updateEditingStatus
       (s\<lparr>generatedAssets := AList.update (asset_id a) a (generatedAssets s)\<rparr>)"

text \<open>\<^verbatim>\<open>pendingDirectives.shift()\<close>.\<close>

definition getNextDirective :: "EditingSession \<Rightarrow> EditingDirective option \<times> EditingSession" where
  "getNextDirective s =
     (case pendingDirectives s of
        [] \<Rightarrow> (None, s)
      | d # rest \<Rightarrow> (Some d, s\<lparr>pendingDirectives := rest\<rparr>))"

definition markDirectiveCompleted :: "EditingSession \<Rightarrow> string \<Rightarrow> EditingSession" where
  "markDirectiveCompleted s directiveId =
     updateEditingStatus (s\<lparr>completedDirectives := completedDirectives s @ [directiveId]\<rparr>)"

definition getEditingStatus :: "EditingSession \<Rightarrow> EditingStatus" where
  "getEditingStatus s = editingStatus s"

text \<open>
  The server. A thrown \<^verbatim>\<open>Error\<close> is \<open>Thrown\<close> with its message, and reading a property of
  \<^verbatim>\<open>undefined\<close> is a \<open>TypeError\<close> (with the message of the V8 engine); a handler that can
  throw returns a sum with the error on the left. The executors of a directive are
  \<^verbatim>\<open>async\<close> functions that \<^verbatim>\<open>handleExecuteNext\<close> awaits inside \<^verbatim>\<open>try\<close>: they return
  the session as they leave it, on the left (with the error) when they throw.
\<close>

datatype js_error = Thrown string | TypeError string

text \<open>An error inside a template literal.\<close>

fun errorText :: "js_error \<Rightarrow> string" where
  "errorText (Thrown msg) = ''Error: '' @ msg"
| "errorText (TypeError msg) = ''TypeError: '' @ msg"

record ResponseResult =
  success :: "bool option"
  rr_message :: "string option"
  rr_mediaItem :: "MediaItem option"
  rr_editingStatus :: "EditingStatus option"

definition no_result :: ResponseResult where
  "no_result = \<lparr>success = None, rr_message = None, rr_mediaItem = None, rr_editingStatus = None\<rparr>"

record MCPVideoEditingServer =
  sessions :: "(string \<times> EditingSession) list"

definition getSession :: "MCPVideoEditingServer \<Rightarrow> string \<Rightarrow> EditingSession option" where
  "getSession srv sid = map_of (sessions srv) sid"

definition executeCutSequence ::
  "EditingSession \<Rightarrow> DirectiveParameters option
     \<Rightarrow> (js_error \<times> EditingSession) + EditingSession" where
  "executeCutSequence session params = Inr session"

text \<open>\<^verbatim>\<open>getTracks().find(t => t.name.includes('BGM'))\<close>: the tracks are tried in order, and
  the callback throws on a track whose name is \<^verbatim>\<open>undefined\<close>.\<close>

fun findBGM :: "Track list \<Rightarrow> js_error + Track option" where
  "findBGM [] = Inr None"
| "findBGM (t # ts) =
     (case track_name t of
        None \<Rightarrow> Inl (TypeError ''Cannot read properties of undefined (reading 'includes')'')
      | Some name \<Rightarrow> if str_includes name ''BGM'' then Inr (Some t) else findBGM ts)"

text \<open>\<^verbatim>\<open>executeAddBGM(session, params: any)\<close> reads \<^verbatim>\<open>params.asset\<close> first, which throws when
  the directive came without parameters.\<close>

definition executeAddBGM ::
  "EditingSession \<Rightarrow> DirectiveParameters option \<Rightarrow> string
     \<Rightarrow> (js_error \<times> EditingSession) + EditingSession" where
  "executeAddBGM session params newId =
     (case params of
        None \<Rightarrow>
          Inl (TypeError ''Cannot read properties of undefined (reading 'asset')'', session)
      | Some bag \<Rightarrow>
          if asset bag \<noteq> None then
            (case findBGM (getTracks (timelineManager session)) of
               Inl err \<Rightarrow> Inl (err, session)
             | Inr (Some bgmTrack) \<Rightarrow> Inr session
             | Inr None \<Rightarrow>
                 Inr (session\<lparr>timelineManager :=
                        snd (createTrack (timelineManager session) (Some ''Background Music'')
                               AudioTrack newId)\<rparr>))
          else Inr session)"

definition executeAddSFX ::
  "EditingSession \<Rightarrow> DirectiveParameters option
     \<Rightarrow> (js_error \<times> EditingSession) + EditingSession" where
  "executeAddSFX session params = Inr session"

definition executeAddText ::
  "EditingSession \<Rightarrow> DirectiveParameters option
     \<Rightarrow> (js_error \<times> EditingSession) + EditingSession" where
  "executeAddText session params = Inr session"

definition executeAddTransition ::
  "EditingSession \<Rightarrow> DirectiveParameters option
     \<Rightarrow> (js_error \<times> EditingSession) + EditingSession" where
  "executeAddTransition session params = Inr session"

definition executeApplyEffect ::
  "EditingSession \<Rightarrow> DirectiveParameters option
     \<Rightarrow> (js_error \<times> EditingSession) + EditingSession" where
  "executeApplyEffect session params = Inr session"

definition executeDirective ::
  "EditingSession \<Rightarrow> EditingDirective \<Rightarrow> string
     \<Rightarrow> (js_error \<times> EditingSession) + EditingSession" where
  "executeDirective session directive newId =
     (case dir_type directive of
        CutSequence \<Rightarrow> executeCutSequence session (dir_parameters directive)
      | AddBgm \<Rightarrow> executeAddBGM session (dir_parameters directive) newId
      | AddSfx \<Rightarrow> executeAddSFX session (dir_parameters directive)
      | AddText \<Rightarrow> executeAddText session (dir_parameters directive)
      | AddTransition \<Rightarrow> executeAddTransition session (dir_parameters directive)
      | ApplyEffect \<Rightarrow> executeApplyEffect session (dir_parameters directive))"

text \<open>What \<^verbatim>\<open>handleExecuteNext\<close> does with the session it has looked up.\<close>

definition executeNext :: "EditingSession \<Rightarrow> string \<Rightarrow> ResponseResult \<times> EditingSession" where
  "executeNext session newId =
     (case getNextDirective session of
        (None, session1) \<Rightarrow>
          (no_result\<lparr>success := Some False, rr_message := Some ''No pending directives''\<rparr>,
           session1)
      | (Some directive, session1) \<Rightarrow>
          (case executeDirective session1 directive newId of
             Inr session2 \<Rightarrow>
               let session3 = markDirectiveCompleted session2 (dir_id directive) in
               (no_result
                  \<lparr>success := Some True,
                   rr_message := Some (''Directive '' @ dir_id directive @ '' completed: ''
                                       @ description directive),
                   rr_editingStatus := Some (getEditingStatus session3)\<rparr>,
                session3)
           | Inl (err, session2) \<Rightarrow>
               (no_result
                  \<lparr>success := Some False,
                   rr_message := Some (''Failed to execute directive: '' @ errorText err)\<rparr>,
                session2)))"

definition handleExecuteNext ::
  "MCPVideoEditingServer \<Rightarrow> string \<Rightarrow> string
     \<Rightarrow> js_error + (ResponseResult \<times> MCPVideoEditingServer)" where
  "handleExecuteNext srv sid newId =
     (case getSession srv sid of
        None \<Rightarrow> Inl (Thrown ''Session not found'')
      | Some session \<Rightarrow>
          let (res, session1) = executeNext session newId
          in Inr (res, srv\<lparr>sessions := AList.update sid session1 (sessions srv)\<rparr>))"

text \<open>\<^verbatim>\<open>edit.create_track\<close>: the name is passed on as it came, absent or not; the type
  \<^verbatim>\<open>'overlay'\<close> becomes \<^verbatim>\<open>'video'\<close>.\<close>

datatype request_track_type = VideoType | AudioType | SubtitleType | OverlayType

fun trackType :: "request_track_type \<Rightarrow> track_kind" where
  "trackType OverlayType = VideoTrack"
| "trackType VideoType = VideoTrack"
| "trackType AudioType = AudioTrack"
| "trackType SubtitleType = SubtitleTrack"

definition handleCreateTrack ::
  "MCPVideoEditingServer \<Rightarrow> string \<Rightarrow> string option \<Rightarrow> request_track_type \<Rightarrow> string
     \<Rightarrow> js_error + (Track \<times> MCPVideoEditingServer)" where
  "handleCreateTrack srv sid name kind newId =
     (case getSession srv sid of
        None \<Rightarrow> Inl (Thrown ''Session not found'')
      | Some session \<Rightarrow>
          let (track, tm1) = createTrack (timelineManager session) name (trackType kind) newId;
              session1 = session\<lparr>timelineManager := tm1, isDirty := True\<rparr>
          in Inr (track, srv\<lparr>sessions := AList.update sid session1 (sessions srv)\<rparr>))"

text \<open>The placement and transform parameters of an \<^verbatim>\<open>edit.set_properties\<close> request.\<close>

record ItemProperties =
  prop_x :: "int option"
  prop_y :: "int option"
  prop_width :: "int option"
  prop_height :: "int option"
  prop_opacity :: "real option"
  prop_scale :: "real option"
  prop_rotation :: "real option"

definition setProperties :: "ItemProperties \<Rightarrow> MediaItem \<Rightarrow> MediaItem" where
  "setProperties props item0 =
     (let item1 = (case prop_x props of None \<Rightarrow> item0 | Some v \<Rightarrow> item0\<lparr>item_x := v\<rparr>);
          item2 = (case prop_y props of None \<Rightarrow> item1 | Some v \<Rightarrow> item1\<lparr>item_y := v\<rparr>);
          item3 = (case prop_width props of None \<Rightarrow> item2 | Some v \<Rightarrow> item2\<lparr>item_width := v\<rparr>);
          item4 = (case prop_height props of None \<Rightarrow> item3 | Some v \<Rightarrow> item3\<lparr>item_height := v\<rparr>);
          item5 = (case prop_opacity props of None \<Rightarrow> item4
                   | Some v \<Rightarrow> item4\<lparr>item_opacity := Some v\<rparr>);
          item6 = (case prop_scale props of None \<Rightarrow> item5
                   | Some v \<Rightarrow> item5\<lparr>item_scale := Some v\<rparr>)
      in (case prop_rotation props of None \<Rightarrow> item6
          | Some v \<Rightarrow> item6\<lparr>item_rotation := Some v\<rparr>))"

definition handleSetProperties ::
  "MCPVideoEditingServer \<Rightarrow> string \<Rightarrow> string \<Rightarrow> string \<Rightarrow> ItemProperties
     \<Rightarrow> js_error + (ResponseResult \<times> MCPVideoEditingServer)" where
  "handleSetProperties srv sid trackId itemId props =
     (case getSession srv sid of
        None \<Rightarrow> Inl (Thrown ''Session not found'')
      | Some session \<Rightarrow>
          (case getTrack (timelineManager session) trackId of
             None \<Rightarrow> Inl (Thrown ''Track not found'')
           | Some track \<Rightarrow>
               (case findIndex (\<lambda>i. item_id i = itemId) (items track) of
                  None \<Rightarrow> Inl (Thrown ''Item not found'')
                | Some itemIndex \<Rightarrow>
                    let item = setProperties props (items track ! itemIndex);
                        track1 = track\<lparr>items := (items track)[itemIndex := item]\<rparr>;
                        tm1 = (timelineManager session)
                                \<lparr>tracks := AList.update trackId track1
                                             (tracks (timelineManager session))\<rparr>;
                        session1 = session\<lparr>timelineManager := tm1, isDirty := True\<rparr>
                    in Inr (no_result\<lparr>success := Some True, rr_mediaItem := Some item\<rparr>,
                            srv\<lparr>sessions := AList.update sid session1 (sessions srv)\<rparr>))))"

section \<open>Notions the properties are stated with\<close>

text \<open>No two items of a list occupy intersecting intervals.\<close>

fun nonOverlapping :: "MediaItem list \<Rightarrow> bool" where
  "nonOverlapping [] = True"
| "nonOverlapping (a # rest) = (list_all (\<lambda>b. \<not> overlaps a b) rest \<and> nonOverlapping rest)"

text \<open>The string a value of the operation type is at run time.\<close>

fun op_kind_name :: "op_kind \<Rightarrow> string" where
  "op_kind_name Cut = ''cut''"
| "op_kind_name Trim = ''trim''"
| "op_kind_name Move = ''move''"
| "op_kind_name Copy = ''copy''"
| "op_kind_name Delete = ''delete''"
| "op_kind_name Split = ''split''"

text \<open>Several \<^verbatim>\<open>agent.submit_directives\<close> requests in a row, and several
  \<^verbatim>\<open>agent.execute_next\<close> requests in a row (one generated identifier per request).\<close>

fun submitAll :: "EditingSession \<Rightarrow> EditingDirective list list \<Rightarrow> EditingSession" where
  "submitAll s [] = s"
| "submitAll s (batch # batches) = submitAll (addDirectives s batch) batches"

fun executeAll :: "EditingSession \<Rightarrow> string list \<Rightarrow> EditingSession" where
  "executeAll s [] = s"
| "executeAll s (newId # ids) = executeAll (snd (executeNext s newId)) ids"





text \<open>When \<^verbatim>\<open>executeDirective\<close> throws: only \<^verbatim>\<open>executeAddBGM\<close> reads anything. It reads the
  parameter bag, and, when the bag holds an asset, the names of the tracks up to the first
  whose name contains \<open>BGM\<close>.\<close>

definition lacksParameters :: "EditingDirective \<Rightarrow> bool" where
  "lacksParameters d = (dir_type d = AddBgm \<and> dir_parameters d = None)"

fun unnamedBeforeBGM :: "Track list \<Rightarrow> bool" where
  "unnamedBeforeBGM [] = False"
| "unnamedBeforeBGM (t # ts) =
     (case track_name t of
        None \<Rightarrow> True
      | Some name \<Rightarrow> \<not> str_includes name ''BGM'' \<and> unnamedBeforeBGM ts)"

definition throwsOn :: "EditingSession \<Rightarrow> EditingDirective \<Rightarrow> bool" where
  "throwsOn s d =
     (dir_type d = AddBgm \<and>
      (case dir_parameters d of
         None \<Rightarrow> True
       | Some bag \<Rightarrow> asset bag \<noteq> None \<and> unnamedBeforeBGM (getTracks (timelineManager s))))"

definition tracksNamed :: "EditingSession \<Rightarrow> bool" where
  "tracksNamed s = list_all (\<lambda>t. track_name t \<noteq> None) (getTracks (timelineManager s))"

text \<open>The directives that a row of \<^verbatim>\<open>agent.execute_next\<close> requests takes off the queue, in
  the order of the requests.\<close>

fun poppedBy :: "EditingSession \<Rightarrow> string list \<Rightarrow> EditingDirective list" where
  "poppedBy s [] = []"
| "poppedBy s (newId # ids) =
     (case fst (getNextDirective s) of None \<Rightarrow> [] | Some d \<Rightarrow> [d])
     @ poppedBy (snd (executeNext s newId)) ids"





text \<open>All items of a timeline, track after track, and the frame at which an item ends.\<close>

definition allItems :: "TimelineManager \<Rightarrow> MediaItem list" where
  "allItems tm = concat (map items (getTracks tm))"

definition itemEnd :: "MediaItem \<Rightarrow> int" where
  "itemEnd item = startFrame item + durationInFrames item"

subsection \<open>Concrete inputs\<close>

definition exampleItem :: "string \<Rightarrow> int \<Rightarrow> int \<Rightarrow> MediaItem" where
  "exampleItem i s d =
     \<lparr>item_id = i, item_type = Video, item_src = ''clip.mp4'', startFrame = s,
      durationInFrames = d, item_x = 0, item_y = 0, item_width = 1280, item_height = 720,
      item_opacity = Some 1, item_scale = Some 1, item_rotation = Some 0\<rparr>"

text \<open>A fresh manager with one video track \<open>''t1''\<close>.\<close>

definition oneTrack :: TimelineManager where
  "oneTrack = snd (createTrack (new_TimelineManager 30) (Some ''Video Track'') VideoTrack ''t1'')"

text \<open>... then an item \<open>''a''\<close> on frames 10 to 50.\<close>

definition oneItem :: TimelineManager where
  "oneItem = snd (addItemToTrack oneTrack ''t1'' (exampleItem ''a'' 10 40) None ''o1'' 0)"

text \<open>Three inserts: \<open>c\<close> on 20..30, \<open>b\<close> on 10..20, then \<open>a\<close> on 5..15.\<close>

definition chainInsert :: TimelineManager where
  "chainInsert =
     snd (addItemToTrack
       (snd (addItemToTrack
          (snd (addItemToTrack oneTrack ''t1'' (exampleItem ''c'' 20 10) None ''o1'' 0))
          ''t1'' (exampleItem ''b'' 10 10) None ''o2'' 0))
       ''t1'' (exampleItem ''a'' 5 10) None ''o3'' 0)"

text \<open>Two inserts at the same start frame.\<close>

definition sameStartInsert :: TimelineManager where
  "sameStartInsert =
     snd (addItemToTrack
       (snd (addItemToTrack oneTrack ''t1'' (exampleItem ''a'' 0 10) None ''o1'' 0))
       ''t1'' (exampleItem ''b'' 0 10) None ''o2'' 0)"

definition exampleDirective :: "string \<Rightarrow> directive_kind \<Rightarrow> int \<Rightarrow> EditingDirective" where
  "exampleDirective i k p =
     \<lparr>dir_id = i, dir_type = k, target = None,
      dir_parameters = Some \<lparr>startTime = None, endTime = None, position = None,
                             asset = None, dp_text = None, effect = None\<rparr>,
      priority = p, description = ''step''\<rparr>"

definition exampleAsset :: GeneratedAsset where
  "exampleAsset =
     \<lparr>asset_id = ''asset1'', asset_type = Bgm, agentId = ''bgm-agent'', asset_data = ''bgm.mp3'',
      metadata = \<lparr>md_duration = None, filename = ''bgm.mp3'', mimeType = ''audio/mpeg'',
                  md_description = None, tags = None\<rparr>\<rparr>"

text \<open>A timeline imported with one locked track \<open>''t1''\<close> that holds the item \<open>''a''\<close>, and
  a server whose session \<open>''s1''\<close> edits it.\<close>

definition lockedTimeline :: TimelineManager where
  "lockedTimeline =
     importTimeline (new_TimelineManager 30)
       \<lparr>ex_tracks = [\<lparr>track_id = ''t1'', track_name = Some ''Video Track'',
                       track_type = VideoTrack, items = [exampleItem ''a'' 10 40],
                       isLocked = True, isVisible = True, volume = None\<rparr>],
        ex_currentFrame = 0, ex_totalDuration = 50, ex_fps = 30\<rparr>"

definition lockedServer :: MCPVideoEditingServer where
  "lockedServer =
     \<lparr>sessions = [(''s1'', (new_EditingSession ''s1'')\<lparr>timelineManager := lockedTimeline\<rparr>)]\<rparr>"

definition moveRight :: ItemProperties where
  "moveRight =
     \<lparr>prop_x = Some 5, prop_y = None, prop_width = None, prop_height = None,
      prop_opacity = None, prop_scale = None, prop_rotation = None\<rparr>"

text \<open>A track with three items, for the overlap resolver.\<close>

definition threeItems :: Track where
  "threeItems =
     \<lparr>track_id = ''t1'', track_name = Some ''Video Track'', track_type = VideoTrack,
      items = [exampleItem ''b'' 10 10, exampleItem ''c'' 0 8, exampleItem ''d'' 30 10],
      isLocked = False, isVisible = True, volume = None\<rparr>"

text \<open>A server whose session \<open>''s1''\<close> has one directive waiting.\<close>

definition queuedServer :: MCPVideoEditingServer where
  "queuedServer =
     \<lparr>sessions = [(''s1'', addDirectives (new_EditingSession ''s1'')
                              [exampleDirective ''d1'' AddBgm 1])]\<rparr>"

text \<open>The first two inserts of \<open>chainInsert\<close>, and then a move of \<open>b\<close> to frame 15.\<close>

definition twoItems :: TimelineManager where
  "twoItems =
     snd (addItemToTrack
        (snd (addItemToTrack oneTrack ''t1'' (exampleItem ''c'' 20 10) None ''o1'' 0))
        ''t1'' (exampleItem ''b'' 10 10) None ''o2'' 0)"

definition movedB :: TimelineManager where
  "movedB = snd (moveItem twoItems ''t1'' ''b'' 15 None ''o3'' 0)"


text \<open>A timeline imported with a locked track \<open>''t1''\<close> and an open track \<open>''t2''\<close>.\<close>

definition twoTracks :: TimelineManager where
  "twoTracks =
     importTimeline (new_TimelineManager 30)
       \<lparr>ex_tracks = [\<lparr>track_id = ''t1'', track_name = Some ''Video Track'',
                       track_type = VideoTrack, items = [exampleItem ''a'' 10 40],
                       isLocked = True, isVisible = True, volume = None\<rparr>,
                     \<lparr>track_id = ''t2'', track_name = Some ''Overlay'',
                       track_type = VideoTrack, items = [exampleItem ''b'' 0 20],
                       isLocked = False, isVisible = True, volume = None\<rparr>],
        ex_currentFrame = 0, ex_totalDuration = 50, ex_fps = 30\<rparr>"

text \<open>A directive as it arrives when the request gives it no \<^verbatim>\<open>parameters\<close>, and one with
  an asset.\<close>

definition bareDirective :: "string \<Rightarrow> directive_kind \<Rightarrow> int \<Rightarrow> EditingDirective" where
  "bareDirective i k p =
     \<lparr>dir_id = i, dir_type = k, target = None, dir_parameters = None,
      priority = p, description = ''step''\<rparr>"

definition assetDirective :: "string \<Rightarrow> int \<Rightarrow> EditingDirective" where
  "assetDirective i p =
     \<lparr>dir_id = i, dir_type = AddBgm, target = None,
      dir_parameters = Some \<lparr>startTime = None, endTime = None, position = None,
                             asset = Some exampleAsset, dp_text = None, effect = None\<rparr>,
      priority = p, description = ''add music''\<rparr>"

text \<open>A server whose session \<open>''s1''\<close> has an \<open>add_bgm\<close> directive without parameters
  waiting; and one whose session has a track created without a name
  (\<^verbatim>\<open>edit.create_track\<close> with no \<^verbatim>\<open>name\<close>) and an \<open>add_bgm\<close> directive with an asset
  waiting.\<close>

definition bareServer :: MCPVideoEditingServer where
  "bareServer =
     \<lparr>sessions = [(''s1'', addDirectives (new_EditingSession ''s1'')
                              [bareDirective ''d1'' AddBgm 1])]\<rparr>"

definition unnamedServer :: MCPVideoEditingServer where
  "unnamedServer =
     \<lparr>sessions =
        [(''s1'', addDirectives
            ((new_EditingSession ''s1'')
               \<lparr>timelineManager := snd (createTrack (new_TimelineManager 30) None VideoTrack ''t1''),
                isDirty := True\<rparr>)
            [assetDirective ''d1'' 1])]\<rparr>"

section \<open>Auxiliary facts\<close>

lemma findIndex_less: "findIndex P xs = Some i \<Longrightarrow> i < length xs"
  by (induction xs arbitrary: i) (auto split: if_splits option.splits)

lemma forEachItem_map: "forEachItem f xs = map f xs"
  by (induction xs) simp_all

lemma all_less_Suc_eq: "(\<forall>i<Suc n. P i) \<longleftrightarrow> P n \<and> (\<forall>i<n. P i)"
  by (auto simp: less_Suc_eq)

lemma findIndex_None_iff: "findIndex P xs = None \<longleftrightarrow> (\<forall>a\<in>set xs. \<not> P a)"
  by (induction xs) (auto split: option.splits)

lemma findIndex_Some_iff:
  "findIndex P xs = Some k \<longleftrightarrow> k < length xs \<and> P (xs ! k) \<and> (\<forall>j<k. \<not> P (xs ! j))"
proof (induction xs arbitrary: k)
  case Nil
  then show ?case by simp
next
  case (Cons a as)
  show ?case
  proof (cases "P a")
    case True
    then show ?thesis by (cases k) auto
  next
    case False
    show ?thesis
    proof (cases k)
      case 0
      with False show ?thesis by (auto split: option.splits)
    next
      case (Suc m)
      have "(\<forall>j<Suc m. \<not> P ((a # as) ! j)) \<longleftrightarrow> (\<forall>j<m. \<not> P (as ! j))"
        using False by (auto simp: less_Suc_eq_0_disj)
      with False Suc Cons.IH[of m] show ?thesis by (auto split: option.splits)
    qed
  qed
qed

lemma map_of_update_same: "map_of (AList.update k v al) k = Some v"
  by (simp add: update_conv')

lemma map_of_update_other: "k' \<noteq> k \<Longrightarrow> map_of (AList.update k v al) k' = map_of al k'"
  by (simp add: update_conv')

lemma getTrack_recordOperation [simp]: "getTrack (recordOperation tm operation) t = getTrack tm t"
  by (simp add: getTrack_def recordOperation_def Let_def)

lemma getTrack_updateTotalDuration [simp]: "getTrack (updateTotalDuration tm) t = getTrack tm t"
  by (simp add: getTrack_def updateTotalDuration_def)

lemma getTrack_tracks_update:
  "getTrack (tm\<lparr>tracks := AList.update k v (tracks tm)\<rparr>) t = (if t = k then Some v else getTrack tm t)"
  by (simp add: getTrack_def update_conv')

lemma executeNext_Nil:
  "pendingDirectives s = [] \<Longrightarrow> snd (executeNext s newId) = s"
  by (simp add: executeNext_def getNextDirective_def)

lemma resolveItem_id [simp]: "item_id (resolveItem new it) = item_id it"
  by (simp add: resolveItem_def Let_def)

lemma resolveItem_separates:
  "item_id it \<noteq> item_id new \<Longrightarrow> startFrame (resolveItem new it) \<noteq> startFrame new \<Longrightarrow>
   \<not> overlaps new (resolveItem new it)"
  by (auto simp: resolveItem_def overlaps_def Let_def split: if_splits)

lemma resolveItem_self: "item_id it = item_id new \<Longrightarrow> resolveItem new it = it"
  by (simp add: resolveItem_def)

lemma resolved_list_separated:
  "other \<in> set (forEachItem (resolveItem new) xs) \<Longrightarrow> item_id other \<noteq> item_id new \<Longrightarrow>
   startFrame other \<noteq> startFrame new \<Longrightarrow> \<not> overlaps new other"
  by (auto simp: forEachItem_map dest: resolveItem_separates)

lemma getTrack_tracks: "getTrack (tm\<lparr>tracks := ts\<rparr>) t = map_of ts t"
  by (simp add: getTrack_def)

lemma sort_key_append_sorted:
  "sort_key f (sort_key f xs @ ys) = sort_key f (xs @ ys)"
proof (rule properties_for_sort_key)
  show "mset (sort_key f (xs @ ys)) = mset (sort_key f xs @ ys)" by simp
  show "sorted (map f (sort_key f (xs @ ys)))" by simp
  fix k
  have "filter (\<lambda>x. f x = f k) (sort_key f (xs @ ys)) = filter (\<lambda>x. f x = f k) (sort_key f xs @ ys)"
    by (simp add: sort_key_stable)
  moreover have "(\<lambda>x. f k = f x) = (\<lambda>x. f x = f k)" by auto
  ultimately show "filter (\<lambda>x. f k = f x) (sort_key f (xs @ ys)) = filter (\<lambda>x. f k = f x) (sort_key f xs @ ys)"
    by simp
qed

lemma pending_addDirectives [simp]:
  "pendingDirectives (addDirectives s ds) = sort_key priority (pendingDirectives s @ ds)"
  by (simp add: addDirectives_def updateEditingStatus_def)

lemma completed_addDirectives [simp]:
  "completedDirectives (addDirectives s ds) = completedDirectives s"
  by (simp add: addDirectives_def updateEditingStatus_def)

lemma submitAll_lists:
  "pendingDirectives (submitAll s batches) =
     (if batches = [] then pendingDirectives s
      else sort_key priority (pendingDirectives s @ concat batches)) \<and>
   completedDirectives (submitAll s batches) = completedDirectives s"
proof (induction batches arbitrary: s)
  case Nil
  then show ?case by simp
next
  case (Cons b bs)
  show ?case
    by (cases "bs = []") (simp_all add: Cons.IH sort_key_append_sorted)
qed

lemma findBGM_Inl_iff: "(\<exists>e. findBGM ts = Inl e) \<longleftrightarrow> unnamedBeforeBGM ts"
  by (induction ts) (auto split: option.splits)

lemma named_not_unnamedBeforeBGM:
  "list_all (\<lambda>t. track_name t \<noteq> None) ts \<Longrightarrow> \<not> unnamedBeforeBGM ts"
  by (induction ts) (auto split: option.splits)

lemma throwsOn_named: "tracksNamed s \<Longrightarrow> throwsOn s d = lacksParameters d"
proof -
  assume "tracksNamed s"
  then have "\<not> unnamedBeforeBGM (getTracks (timelineManager s))"
    unfolding tracksNamed_def by (rule named_not_unnamedBeforeBGM)
  then show ?thesis
    by (cases "dir_parameters d") (simp_all add: throwsOn_def lacksParameters_def)
qed

lemma throwsOn_pending [simp]: "throwsOn (s\<lparr>pendingDirectives := r\<rparr>) d = throwsOn s d"
  by (cases "dir_parameters d") (simp_all add: throwsOn_def)

lemma named_update:
  "list_all (\<lambda>t. track_name t \<noteq> None) (map snd al) \<Longrightarrow> track_name v \<noteq> None \<Longrightarrow>
   list_all (\<lambda>t. track_name t \<noteq> None) (map snd (AList.update k v al))"
  by (induction al) auto

lemma named_createTrack:
  "list_all (\<lambda>t. track_name t \<noteq> None) (getTracks tm) \<Longrightarrow>
   list_all (\<lambda>t. track_name t \<noteq> None) (getTracks (snd (createTrack tm (Some name) kind newId)))"
  by (simp add: createTrack_def getTracks_def Let_def named_update del: not_None_eq)

lemma executeDirective_throws:
  assumes "throwsOn s d"
  shows "\<exists>e. executeDirective s d newId = Inl (e, s)"
proof -
  from assms have k: "dir_type d = AddBgm" by (simp add: throwsOn_def)
  show ?thesis
  proof (cases "dir_parameters d")
    case None
    with k show ?thesis by (simp add: executeDirective_def executeAddBGM_def)
  next
    case (Some bag)
    with assms have a: "asset bag \<noteq> None" and u: "unnamedBeforeBGM (getTracks (timelineManager s))"
      by (simp_all add: throwsOn_def)
    from u obtain e where "findBGM (getTracks (timelineManager s)) = Inl e"
      using findBGM_Inl_iff by blast
    with k Some a show ?thesis by (simp add: executeDirective_def executeAddBGM_def)
  qed
qed

lemma executeDirective_runs:
  assumes "\<not> throwsOn s d"
  shows "\<exists>tm'. executeDirective s d newId = Inr (s\<lparr>timelineManager := tm'\<rparr>) \<and>
     (tracksNamed s \<longrightarrow> list_all (\<lambda>t. track_name t \<noteq> None) (getTracks tm'))"
proof -
  have same: "executeDirective s d newId = Inr s \<Longrightarrow> ?thesis"
  proof -
    assume "executeDirective s d newId = Inr s"
    then have "executeDirective s d newId = Inr (s\<lparr>timelineManager := timelineManager s\<rparr>) \<and>
       (tracksNamed s \<longrightarrow> list_all (\<lambda>t. track_name t \<noteq> None) (getTracks (timelineManager s)))"
      by (simp add: tracksNamed_def)
    then show ?thesis by blast
  qed
  show ?thesis
  proof (cases "dir_type d")
    case AddBgm
    with assms obtain bag where b: "dir_parameters d = Some bag"
      and c: "asset bag = None \<or> \<not> unnamedBeforeBGM (getTracks (timelineManager s))"
      by (auto simp: throwsOn_def split: option.splits)
    show ?thesis
    proof (cases "asset bag = None")
      case True
      with AddBgm b show ?thesis by (intro same) (simp add: executeDirective_def executeAddBGM_def)
    next
      case False
      with c have "\<not> unnamedBeforeBGM (getTracks (timelineManager s))" by simp
      then obtain found where f: "findBGM (getTracks (timelineManager s)) = Inr found"
        using findBGM_Inl_iff [of "getTracks (timelineManager s)"]
        by (cases "findBGM (getTracks (timelineManager s))") auto
      show ?thesis
      proof (cases found)
        case None
        let ?tm' = "snd (createTrack (timelineManager s) (Some ''Background Music'') AudioTrack newId)"
        from AddBgm b False f None have "executeDirective s d newId = Inr (s\<lparr>timelineManager := ?tm'\<rparr>)"
          by (simp add: executeDirective_def executeAddBGM_def)
        moreover have "tracksNamed s \<longrightarrow> list_all (\<lambda>t. track_name t \<noteq> None) (getTracks ?tm')"
          by (simp add: tracksNamed_def named_createTrack del: not_None_eq)
        ultimately show ?thesis by blast
      next
        case (Some t)
        with AddBgm b False f show ?thesis
          by (intro same) (simp add: executeDirective_def executeAddBGM_def)
      qed
    qed
  next
    case CutSequence
    then show ?thesis by (intro same) (simp add: executeDirective_def executeCutSequence_def)
  next
    case AddSfx
    then show ?thesis by (intro same) (simp add: executeDirective_def executeAddSFX_def)
  next
    case AddText
    then show ?thesis by (intro same) (simp add: executeDirective_def executeAddText_def)
  next
    case AddTransition
    then show ?thesis by (intro same) (simp add: executeDirective_def executeAddTransition_def)
  next
    case ApplyEffect
    then show ?thesis by (intro same) (simp add: executeDirective_def executeApplyEffect_def)
  qed
qed

lemma executeNext_throws:
  assumes "pendingDirectives s = d # rest" and "throwsOn s d"
  shows "\<exists>e. executeNext s newId =
     (no_result\<lparr>success := Some False,
                rr_message := Some (''Failed to execute directive: '' @ errorText e)\<rparr>,
      s\<lparr>pendingDirectives := rest\<rparr>)"
proof -
  from assms(2) have "throwsOn (s\<lparr>pendingDirectives := rest\<rparr>) d" by simp
  from executeDirective_throws [OF this, of newId] obtain e where
    "executeDirective (s\<lparr>pendingDirectives := rest\<rparr>) d newId = Inl (e, s\<lparr>pendingDirectives := rest\<rparr>)"
    by blast
  with assms(1) show ?thesis
    by (auto simp: executeNext_def getNextDirective_def)
qed

lemma executeNext_runs:
  assumes "pendingDirectives s = d # rest" and "\<not> throwsOn s d"
  shows "\<exists>tm'. executeNext s newId =
     (no_result\<lparr>success := Some True,
                rr_message := Some (''Directive '' @ dir_id d @ '' completed: '' @ description d),
                rr_editingStatus := Some (getEditingStatus
                  (markDirectiveCompleted (s\<lparr>pendingDirectives := rest, timelineManager := tm'\<rparr>) (dir_id d)))\<rparr>,
      markDirectiveCompleted (s\<lparr>pendingDirectives := rest, timelineManager := tm'\<rparr>) (dir_id d)) \<and>
     (tracksNamed s \<longrightarrow> list_all (\<lambda>t. track_name t \<noteq> None) (getTracks tm'))"
proof -
  from assms(2) have "\<not> throwsOn (s\<lparr>pendingDirectives := rest\<rparr>) d" by simp
  from executeDirective_runs [OF this, of newId] obtain tm' where
    "executeDirective (s\<lparr>pendingDirectives := rest\<rparr>) d newId
      = Inr (s\<lparr>pendingDirectives := rest, timelineManager := tm'\<rparr>)"
    and "tracksNamed s \<longrightarrow> list_all (\<lambda>t. track_name t \<noteq> None) (getTracks tm')"
    by (auto simp: tracksNamed_def)
  with assms(1) show ?thesis
    by (auto simp: executeNext_def getNextDirective_def Let_def)
qed

lemma pending_executeNext:
  "pendingDirectives (snd (executeNext s newId)) = tl (pendingDirectives s)"
proof (cases "pendingDirectives s")
  case Nil
  then show ?thesis by (simp add: executeNext_Nil)
next
  case (Cons d rest)
  show ?thesis
  proof (cases "throwsOn s d")
    case True
    from executeNext_throws [OF Cons True, of newId] Cons show ?thesis by auto
  next
    case False
    from executeNext_runs [OF Cons False, of newId] Cons show ?thesis
      by (auto simp: markDirectiveCompleted_def updateEditingStatus_def)
  qed
qed

lemma completed_executeNext:
  assumes "pendingDirectives s = d # rest"
  shows "completedDirectives (snd (executeNext s newId)) =
     (if throwsOn s d then completedDirectives s else completedDirectives s @ [dir_id d])"
proof (cases "throwsOn s d")
  case True
  from executeNext_throws [OF assms True, of newId] True show ?thesis by auto
next
  case False
  from executeNext_runs [OF assms False, of newId] False show ?thesis
    by (auto simp: markDirectiveCompleted_def updateEditingStatus_def)
qed

lemma tracksNamed_executeNext:
  "tracksNamed s \<Longrightarrow> tracksNamed (snd (executeNext s newId))"
proof (cases "pendingDirectives s")
  case Nil
  assume "tracksNamed s"
  with Nil show ?thesis by (simp add: executeNext_Nil)
next
  case (Cons d rest)
  assume n: "tracksNamed s"
  show ?thesis
  proof (cases "throwsOn s d")
    case True
    from executeNext_throws [OF Cons True, of newId] n show ?thesis
      by (auto simp: tracksNamed_def)
  next
    case False
    from executeNext_runs [OF Cons False, of newId] n show ?thesis
      by (auto simp: tracksNamed_def markDirectiveCompleted_def updateEditingStatus_def)
  qed
qed

lemma poppedBy_take: "poppedBy s ids = take (length ids) (pendingDirectives s)"
proof (induction ids arbitrary: s)
  case Nil
  then show ?case by simp
next
  case (Cons newId ids)
  show ?case
    by (cases "pendingDirectives s")
      (simp_all add: Cons.IH pending_executeNext getNextDirective_def)
qed

lemma executeAll_pending:
  "pendingDirectives (executeAll s ids) = drop (length ids) (pendingDirectives s)"
proof (induction ids arbitrary: s)
  case Nil
  then show ?case by simp
next
  case (Cons newId ids)
  show ?case
    by (cases "pendingDirectives s") (simp_all add: Cons.IH pending_executeNext)
qed

lemma executeAll_completed:
  "tracksNamed s \<Longrightarrow>
   completedDirectives (executeAll s ids) =
     completedDirectives s @
       map dir_id (filter (\<lambda>d. \<not> lacksParameters d) (take (length ids) (pendingDirectives s)))"
proof (induction ids arbitrary: s)
  case Nil
  then show ?case by simp
next
  case (Cons newId ids)
  note n = tracksNamed_executeNext [OF Cons.prems, of newId]
  show ?case
  proof (cases "pendingDirectives s")
    case Nil
    with Cons.prems show ?thesis
      by (simp add: executeNext_Nil Cons.IH)
  next
    case (Cons d rest)
    have p: "pendingDirectives (snd (executeNext s newId)) = rest"
      using Cons by (simp add: pending_executeNext)
    have c: "completedDirectives (snd (executeNext s newId)) =
       (if lacksParameters d then completedDirectives s else completedDirectives s @ [dir_id d])"
      using completed_executeNext [OF Cons, of newId] Cons.prems by (simp add: throwsOn_named)
    show ?thesis
      using Cons by (simp add: Cons.IH [OF n] p c)
  qed
qed





lemma tracksNamed_addDirectives [simp]: "tracksNamed (addDirectives s ds) = tracksNamed s"
  by (simp add: tracksNamed_def addDirectives_def updateEditingStatus_def)

lemma tracksNamed_addGeneratedAsset [simp]: "tracksNamed (addGeneratedAsset s a) = tracksNamed s"
  by (simp add: tracksNamed_def addGeneratedAsset_def updateEditingStatus_def)

lemma tracksNamed_registerAgent [simp]: "tracksNamed (registerAgent s t aid) = tracksNamed s"
  by (simp add: tracksNamed_def registerAgent_def Let_def)

lemma pending_addGeneratedAsset [simp]:
  "pendingDirectives (addGeneratedAsset s a) = pendingDirectives s"
  by (simp add: addGeneratedAsset_def updateEditingStatus_def)

lemma pending_registerAgent [simp]:
  "pendingDirectives (registerAgent s t aid) = pendingDirectives s"
  by (simp add: registerAgent_def Let_def)








text \<open>The session of \<open>unnamedServer\<close> is what \<^verbatim>\<open>edit.create_track\<close> without a name, then
  \<^verbatim>\<open>agent.submit_directives\<close>, make of a new session.\<close>

lemma unnamedServer_reached:
  "\<exists>track srv session.
     handleCreateTrack \<lparr>sessions = [(''s1'', new_EditingSession ''s1'')]\<rparr> ''s1'' None VideoType ''t1''
       = Inr (track, srv) \<and>
     track_name track = None \<and>
     getSession srv ''s1'' = Some session \<and>
     unnamedServer = srv\<lparr>sessions :=
       AList.update ''s1'' (addDirectives session [assetDirective ''d1'' 1]) (sessions srv)\<rparr>"
  by (simp add: handleCreateTrack_def getSession_def createTrack_def unnamedServer_def Let_def
      new_EditingSession_def)

lemma Max_insert_max:
  "finite S \<Longrightarrow> Max (insert (max a b) S) = Max (insert a (insert b S))"
  by (cases "S = {}") (simp_all add: max.assoc)

lemma maxItemEnd_Max: "maxItemEnd its m = Max (insert m (itemEnd ` set its))"
proof (induction its arbitrary: m)
  case Nil
  then show ?case by (simp add: maxItemEnd_def)
next
  case (Cons a its)
  have "maxItemEnd (a # its) m = maxItemEnd its (max m (itemEnd a))"
    by (simp add: maxItemEnd_def itemEnd_def)
  also have "\<dots> = Max (insert (max m (itemEnd a)) (itemEnd ` set its))"
    by (rule Cons.IH)
  also have "\<dots> = Max (insert m (itemEnd ` set (a # its)))"
    by (simp add: Max_insert_max del: Max_insert)
  finally show ?case .
qed

lemma fold_tracks_Max:
  "fold (\<lambda>track m. maxItemEnd (items track) m) ts m
     = Max (insert m (itemEnd ` set (concat (map items ts))))"
proof (induction ts arbitrary: m)
  case Nil
  then show ?case by simp
next
  case (Cons t ts)
  have fin: "finite (itemEnd ` set (items t))" "finite (itemEnd ` set (concat (map items ts)))"
    by simp_all
  have "fold (\<lambda>track m. maxItemEnd (items track) m) (t # ts) m
      = fold (\<lambda>track m. maxItemEnd (items track) m) ts (maxItemEnd (items t) m)"
    by simp
  also have "\<dots> = Max (insert (maxItemEnd (items t) m) (itemEnd ` set (concat (map items ts))))"
    by (rule Cons.IH)
  also have "\<dots> = Max (insert (Max (insert m (itemEnd ` set (items t)))) (itemEnd ` set (concat (map items ts))))"
    by (simp only: maxItemEnd_Max)
  also have "\<dots> = Max (insert m (itemEnd ` set (items t)) \<union> (itemEnd ` set (concat (map items ts))))"
  proof (cases "set (concat (map items ts)) = {}")
    case True
    then show ?thesis by simp
  next
    case False
    then have ne: "itemEnd ` set (concat (map items ts)) \<noteq> {}" by simp
    have "Max (insert m (itemEnd ` set (items t)) \<union> itemEnd ` set (concat (map items ts)))
        = max (Max (insert m (itemEnd ` set (items t)))) (Max (itemEnd ` set (concat (map items ts))))"
      by (rule Max_Un) (use ne in simp_all)
    moreover have "Max (insert (Max (insert m (itemEnd ` set (items t)))) (itemEnd ` set (concat (map items ts))))
        = max (Max (insert m (itemEnd ` set (items t)))) (Max (itemEnd ` set (concat (map items ts))))"
      by (rule Max_insert) (use ne in simp_all)
    ultimately show ?thesis by simp
  qed
  also have "insert m (itemEnd ` set (items t)) \<union> (itemEnd ` set (concat (map items ts)))
      = insert m (itemEnd ` set (concat (map items (t # ts))))"
    by auto
  finally show ?case .
qed

lemma updateTotalDuration_Max:
  "totalDuration (updateTotalDuration tm) = Max (insert 0 (itemEnd ` set (allItems tm)))"
  by (simp add: updateTotalDuration_def fold_tracks_Max allItems_def)

lemma recorded_update_current:
  "getTotalDuration (recordOperation (updateTotalDuration tm) operation)
     = Max (insert 0 (itemEnd ` set (allItems (recordOperation (updateTotalDuration tm) operation))))"
proof -
  have "allItems (recordOperation (updateTotalDuration tm) operation) = allItems tm"
    by (simp add: allItems_def getTracks_def recordOperation_def updateTotalDuration_def Let_def)
  moreover have "getTotalDuration (recordOperation (updateTotalDuration tm) operation)
      = totalDuration (updateTotalDuration tm)"
    by (simp add: getTotalDuration_def recordOperation_def Let_def)
  ultimately show ?thesis by (simp add: updateTotalDuration_Max)
qed

lemmas timeline_defs =
  new_TimelineManager_def no_parameters_def getTrack_def getTracks_def getTotalDuration_def
  createTrack_def deleteTrack_def resolveOverlaps_def resolveItem_def maxItemEnd_def
  updateTotalDuration_def recordOperation_def addItemToTrack_def splice1_def crossTarget_def
  AList.delete_eq Let_def

lemmas example_defs = exampleItem_def oneTrack_def oneItem_def

section \<open>The claims\<close>

text \<open>
  \<^bold>\<open>C1\<close> (no two items of a track overlap after \<^verbatim>\<open>addItemToTrack\<close> and \<^verbatim>\<open>moveItem\<close>), as
  amended. Right after a successful insert or move, the inserted or moved item is in its
  track, and every item of that track with another identifier and another start frame
  occupies an interval that does not meet the new item's. Nothing is said of two other
  items (one pushed by the resolver may land on a third) or of an item that starts where
  the new item starts (it is only shortened to one frame).
\<close>

theorem add_move_clear_new_item:
  "(addItemToTrack tm trackId item0 insertFrame opId now = (True, tm1) \<longrightarrow>
      (\<exists>track' item. getTrack tm1 trackId = Some track' \<and>
         item = (case insertFrame of None \<Rightarrow> item0 | Some f \<Rightarrow> item0\<lparr>startFrame := f\<rparr>) \<and>
         item \<in> set (items track') \<and>
         (\<forall>other\<in>set (items track').
            item_id other \<noteq> item_id item \<and> startFrame other \<noteq> startFrame item \<longrightarrow>
            \<not> overlaps item other))) \<and>
   (moveItem tm trackId itemId newStartFrame newTrackId opId now = (True, tm2) \<longrightarrow>
      (\<exists>track' item.
         getTrack tm2 (case crossTarget trackId newTrackId of None \<Rightarrow> trackId | Some t \<Rightarrow> t)
           = Some track' \<and>
         item \<in> set (items track') \<and> item_id item = itemId \<and> startFrame item = newStartFrame \<and>
         (\<forall>other\<in>set (items track').
            item_id other \<noteq> itemId \<and> startFrame other \<noteq> newStartFrame \<longrightarrow>
            \<not> overlaps item other)))"
proof (intro conjI impI)
  assume a: "addItemToTrack tm trackId item0 insertFrame opId now = (True, tm1)"
  define item where "item = (case insertFrame of None \<Rightarrow> item0 | Some f \<Rightarrow> item0\<lparr>startFrame := f\<rparr>)"
  from a obtain track where t: "getTrack tm trackId = Some track" "\<not> isLocked track"
    by (auto simp: addItemToTrack_def split: option.splits if_splits)
  let ?track' = "track\<lparr>items := forEachItem (resolveItem item) (items track) @ [item]\<rparr>"
  from a t have g: "getTrack tm1 trackId = Some ?track'"
    by (auto simp: addItemToTrack_def Let_def getTrack_tracks_update resolveOverlaps_def item_def)
  have sep: "\<forall>other\<in>set (items ?track').
            item_id other \<noteq> item_id item \<and> startFrame other \<noteq> startFrame item \<longrightarrow>
            \<not> overlaps item other"
    by (auto dest: resolved_list_separated)
  from g sep show "\<exists>track' item. getTrack tm1 trackId = Some track' \<and>
         item = (case insertFrame of None \<Rightarrow> item0 | Some f \<Rightarrow> item0\<lparr>startFrame := f\<rparr>) \<and>
         item \<in> set (items track') \<and>
         (\<forall>other\<in>set (items track').
            item_id other \<noteq> item_id item \<and> startFrame other \<noteq> startFrame item \<longrightarrow>
            \<not> overlaps item other)"
    unfolding item_def [symmetric] by (intro exI [of _ ?track'] exI [of _ item]) simp
next
  assume m: "moveItem tm trackId itemId newStartFrame newTrackId opId now = (True, tm2)"
  from m obtain src k where s: "getTrack tm trackId = Some src" "\<not> isLocked src"
      "findIndex (\<lambda>item. item_id item = itemId) (items src) = Some k"
    by (auto simp: moveItem_def split: option.splits if_splits)
  define item where "item = (items src ! k)\<lparr>startFrame := newStartFrame\<rparr>"
  from s(3) have k: "k < length (items src)" "item_id (items src ! k) = itemId"
    by (simp_all add: findIndex_Some_iff)
  then have id: "item_id item = itemId" and st: "startFrame item = newStartFrame"
    by (simp_all add: item_def)
  show "\<exists>track' item.
         getTrack tm2 (case crossTarget trackId newTrackId of None \<Rightarrow> trackId | Some t \<Rightarrow> t)
           = Some track' \<and>
         item \<in> set (items track') \<and> item_id item = itemId \<and> startFrame item = newStartFrame \<and>
         (\<forall>other\<in>set (items track').
            item_id other \<noteq> itemId \<and> startFrame other \<noteq> newStartFrame \<longrightarrow>
            \<not> overlaps item other)"
  proof (cases "crossTarget trackId newTrackId")
    case None
    let ?track' = "src\<lparr>items := forEachItem (resolveItem item) ((items src)[k := item])\<rparr>"
    from m s None have g: "getTrack tm2 trackId = Some ?track'"
      by (auto simp: moveItem_def Let_def getTrack_tracks_update resolveOverlaps_def item_def)
    have "items ?track' ! k = item"
      using k by (simp add: forEachItem_map resolveItem_self)
    moreover have "k < length (items ?track')" using k by (simp add: forEachItem_map)
    ultimately have mem: "item \<in> set (items ?track')" by (metis nth_mem)
    have sep: "\<forall>other\<in>set (items ?track').
            item_id other \<noteq> itemId \<and> startFrame other \<noteq> newStartFrame \<longrightarrow>
            \<not> overlaps item other"
      using id st by (auto dest: resolved_list_separated)
    from g mem sep id st None show ?thesis
      by (intro exI [of _ ?track'] exI [of _ item]) simp
  next
    case (Some target)
    then have ne: "target \<noteq> trackId"
      by (auto simp: crossTarget_def split: option.splits if_splits)
    from m s Some obtain dst where d: "getTrack tm target = Some dst" "\<not> isLocked dst"
      by (auto simp: moveItem_def Let_def split: option.splits if_splits)
    let ?track' = "dst\<lparr>items := forEachItem (resolveItem item) (items dst) @ [item]\<rparr>"
    from m s Some d ne have g: "getTrack tm2 target = Some ?track'"
      by (auto simp: moveItem_def Let_def getTrack_tracks map_of_update_same resolveOverlaps_def item_def)
    have sep: "\<forall>other\<in>set (items ?track').
            item_id other \<noteq> itemId \<and> startFrame other \<noteq> newStartFrame \<longrightarrow>
            \<not> overlaps item other"
      using id st by (auto dest: resolved_list_separated)
    from g sep id st Some show ?thesis
      by (intro exI [of _ ?track'] exI [of _ item]) simp
  qed
qed

theorem add_move_clear_new_item_witness:
  "addItemToTrack twoItems ''t1'' (exampleItem ''a'' 5 10) None ''o3'' 0 = (True, chainInsert) \<and>
   (\<exists>track' item. getTrack chainInsert ''t1'' = Some track' \<and>
      item = exampleItem ''a'' 5 10 \<and> item \<in> set (items track') \<and>
      (\<forall>other\<in>set (items track').
          item_id other \<noteq> item_id item \<and> startFrame other \<noteq> startFrame item \<longrightarrow>
          \<not> overlaps item other)) \<and>
   moveItem twoItems ''t1'' ''b'' 15 None ''o3'' 0 = (True, movedB) \<and>
   (\<exists>track' item. getTrack movedB ''t1'' = Some track' \<and>
      item \<in> set (items track') \<and> item_id item = ''b'' \<and> startFrame item = 15 \<and>
      (\<forall>other\<in>set (items track').
          item_id other \<noteq> ''b'' \<and> startFrame other \<noteq> 15 \<longrightarrow> \<not> overlaps item other))"
proof -
  have a: "addItemToTrack twoItems ''t1'' (exampleItem ''a'' 5 10) None ''o3'' 0 = (True, chainInsert)"
    by (simp add: chainInsert_def twoItems_def prod_eq_iff)
      (simp add: twoItems_def example_defs timeline_defs)
  have m: "moveItem twoItems ''t1'' ''b'' 15 None ''o3'' 0 = (True, movedB)"
    by (simp add: movedB_def prod_eq_iff)
      (simp add: twoItems_def example_defs timeline_defs moveItem_def)
  show ?thesis
    using add_move_clear_new_item [of twoItems "''t1''" "exampleItem ''a'' 5 10" None "''o3''" 0
        chainInsert "''b''" 15 None movedB] a m
    by (simp add: crossTarget_def)
qed

text \<open>\<^bold>\<open>C1\<close> as first stated fails after three inserts into an empty track (\<open>a\<close> pushes
  \<open>b\<close> onto \<open>c\<close>), and after two inserts at the same frame.\<close>

theorem nonOverlap_counterexample:
  "\<not> list_all (\<lambda>track. nonOverlapping (items track)) (getTracks chainInsert) \<and>
   \<not> list_all (\<lambda>track. nonOverlapping (items track)) (getTracks sameStartInsert)"
  by (simp add: chainInsert_def sameStartInsert_def example_defs timeline_defs overlaps_def)

text \<open>
  \<^bold>\<open>C2\<close> (the cached total duration is never stale). \<^verbatim>\<open>deleteTrack\<close> removes a track
  without calling \<^verbatim>\<open>updateTotalDuration\<close>, which \<^verbatim>\<open>addItemToTrack\<close>,
  \<^verbatim>\<open>removeItemFromTrack\<close>, \<^verbatim>\<open>moveItem\<close> and \<^verbatim>\<open>trimItem\<close> all call: deleting the only track of a timeline that holds one item on frames 10 to 50
  leaves no track and no item, and \<^verbatim>\<open>getTotalDuration()\<close> still answers 50.
\<close>

theorem deleteTrack_stale_duration:
  "fst (deleteTrack oneItem ''t1'') = True \<and>
   getTracks (snd (deleteTrack oneItem ''t1'')) = [] \<and>
   getTotalDuration (snd (deleteTrack oneItem ''t1'')) = 50"
  by (simp add: example_defs timeline_defs)

text \<open>
  \<^bold>\<open>C3\<close> (undo restores the state before the call). \<^verbatim>\<open>undo\<close> moves the log entry to the
  redo stack and runs \<^verbatim>\<open>executeReverseOperation\<close>, which changes nothing: after adding
  an item to an empty track and undoing, the track still holds the item and the total
  duration is still 50.
\<close>

theorem undo_restores_nothing:
  "fst (undo oneItem) = True \<and>
   getTracks (snd (undo oneItem)) = getTracks oneItem \<and>
   getTracks (snd (undo oneItem)) \<noteq> getTracks oneTrack \<and>
   getTotalDuration (snd (undo oneItem)) = 50 \<and> getTotalDuration oneTrack = 0"
  by (simp add: example_defs timeline_defs undo_def executeReverseOperation_def)

text \<open>
  \<^bold>\<open>C4\<close> (\<^verbatim>\<open>splitItem\<close>). The call fails and changes nothing when the track is missing or
  locked, when no item has the identifier, or when the split frame is not strictly inside
  the interval of the first item with that identifier. Otherwise it succeeds: that item
  keeps its place and now ends at the split frame, a copy of it with the generated
  identifier, starting at the split frame and ending where the item ended, is appended,
  the two durations add up to the old one, and every other track is as before.
\<close>

theorem splitItem_correct:
  "(getTrack tm trackId = None \<longrightarrow>
      splitItem tm trackId itemId splitFrame newId opId now = (False, tm)) \<and>
   (\<forall>track. getTrack tm trackId = Some track \<longrightarrow>
      (isLocked track \<longrightarrow> splitItem tm trackId itemId splitFrame newId opId now = (False, tm)) \<and>
      ((\<forall>it\<in>set (items track). item_id it \<noteq> itemId) \<longrightarrow>
         splitItem tm trackId itemId splitFrame newId opId now = (False, tm)) \<and>
      (\<forall>k. k < length (items track) \<and> item_id (items track ! k) = itemId \<and>
           (\<forall>j<k. item_id (items track ! j) \<noteq> itemId) \<longrightarrow>
         (splitFrame \<le> startFrame (items track ! k) \<or>
          splitFrame \<ge> startFrame (items track ! k) + durationInFrames (items track ! k) \<longrightarrow>
            splitItem tm trackId itemId splitFrame newId opId now = (False, tm)) \<and>
         (\<not> isLocked track \<and> startFrame (items track ! k) < splitFrame \<and>
          splitFrame < startFrame (items track ! k) + durationInFrames (items track ! k) \<longrightarrow>
            fst (splitItem tm trackId itemId splitFrame newId opId now) = True \<and>
            getTrack (snd (splitItem tm trackId itemId splitFrame newId opId now)) trackId =
              Some (track\<lparr>items :=
                (items track)[k := (items track ! k)\<lparr>durationInFrames :=
                                     splitFrame - startFrame (items track ! k)\<rparr>]
                @ [(items track ! k)\<lparr>item_id := newId, startFrame := splitFrame,
                     durationInFrames := startFrame (items track ! k)
                       + durationInFrames (items track ! k) - splitFrame\<rparr>]\<rparr>) \<and>
            (\<forall>t. t \<noteq> trackId \<longrightarrow>
               getTrack (snd (splitItem tm trackId itemId splitFrame newId opId now)) t
                 = getTrack tm t) \<and>
            (splitFrame - startFrame (items track ! k))
              + (startFrame (items track ! k) + durationInFrames (items track ! k) - splitFrame)
              = durationInFrames (items track ! k))))"
proof (intro conjI allI impI)
  assume "getTrack tm trackId = None"
  then show "splitItem tm trackId itemId splitFrame newId opId now = (False, tm)"
    by (simp add: splitItem_def)
next
  fix track
  assume "getTrack tm trackId = Some track" "isLocked track"
  then show "splitItem tm trackId itemId splitFrame newId opId now = (False, tm)"
    by (simp add: splitItem_def)
next
  fix track
  assume "getTrack tm trackId = Some track" "\<forall>it\<in>set (items track). item_id it \<noteq> itemId"
  moreover from this have "findIndex (\<lambda>i. item_id i = itemId) (items track) = None"
    by (simp add: findIndex_None_iff)
  ultimately show "splitItem tm trackId itemId splitFrame newId opId now = (False, tm)"
    by (simp add: splitItem_def)
next
  fix track k
  assume t: "getTrack tm trackId = Some track"
    and k: "k < length (items track) \<and> item_id (items track ! k) = itemId \<and>
           (\<forall>j<k. item_id (items track ! j) \<noteq> itemId)"
  then have fi: "findIndex (\<lambda>i. item_id i = itemId) (items track) = Some k"
    by (simp add: findIndex_Some_iff)
  {
    assume "splitFrame \<le> startFrame (items track ! k) \<or>
          splitFrame \<ge> startFrame (items track ! k) + durationInFrames (items track ! k)"
    with t fi show "splitItem tm trackId itemId splitFrame newId opId now = (False, tm)"
      by (auto simp add: splitItem_def Let_def)
  }
  assume ok: "\<not> isLocked track \<and> startFrame (items track ! k) < splitFrame \<and>
          splitFrame < startFrame (items track ! k) + durationInFrames (items track ! k)"
  with t fi show "fst (splitItem tm trackId itemId splitFrame newId opId now) = True"
    by (simp add: splitItem_def Let_def)
  from ok t fi show "getTrack (snd (splitItem tm trackId itemId splitFrame newId opId now)) trackId =
              Some (track\<lparr>items :=
                (items track)[k := (items track ! k)\<lparr>durationInFrames :=
                                     splitFrame - startFrame (items track ! k)\<rparr>]
                @ [(items track ! k)\<lparr>item_id := newId, startFrame := splitFrame,
                     durationInFrames := startFrame (items track ! k)
                       + durationInFrames (items track ! k) - splitFrame\<rparr>]\<rparr>)"
    by (simp add: splitItem_def Let_def getTrack_tracks_update)
  show "(splitFrame - startFrame (items track ! k))
              + (startFrame (items track ! k) + durationInFrames (items track ! k) - splitFrame)
              = durationInFrames (items track ! k)" by simp
  fix t' assume "t' \<noteq> trackId"
  with ok t fi show "getTrack (snd (splitItem tm trackId itemId splitFrame newId opId now)) t'
                 = getTrack tm t'"
    by (simp add: splitItem_def Let_def getTrack_tracks_update)
qed


theorem splitItem_correct_witness:
  "splitItem oneItem ''t1'' ''a'' 5 ''n'' ''o2'' 0 = (False, oneItem) \<and>
   splitItem oneItem ''t1'' ''a'' 60 ''n'' ''o2'' 0 = (False, oneItem) \<and>
   fst (splitItem oneItem ''t1'' ''a'' 30 ''n'' ''o2'' 0) = True \<and>
   (\<exists>track'. getTrack (snd (splitItem oneItem ''t1'' ''a'' 30 ''n'' ''o2'' 0)) ''t1'' = Some track' \<and>
      map (\<lambda>i. (item_id i, startFrame i, durationInFrames i)) (items track')
        = [(''a'', 10, 20), (''n'', 30, 20)])"
proof -
  have t: "getTrack oneItem ''t1'' =
      Some \<lparr>track_id = ''t1'', track_name = Some ''Video Track'', track_type = VideoTrack,
            items = [exampleItem ''a'' 10 40], isLocked = False, isVisible = True,
            volume = None\<rparr>"
    by (simp add: example_defs timeline_defs)
  show ?thesis
    using splitItem_correct [of oneItem "''t1''" "''a''" 5 "''n''" "''o2''" 0]
      splitItem_correct [of oneItem "''t1''" "''a''" 60 "''n''" "''o2''" 0]
      splitItem_correct [of oneItem "''t1''" "''a''" 30 "''n''" "''o2''" 0]
    by (simp add: t exampleItem_def)
qed

text \<open>
  \<^bold>\<open>C5\<close> (the overlap resolver). \<^verbatim>\<open>resolveOverlaps\<close> changes only the item list, keeps
  its length and order, and decides each item from that item and the new one alone (one
  pass): an item with another identifier whose interval meets the new one's is moved to
  the new item's end, keeping its duration, when the new item starts before it, and
  otherwise gets the duration \<open>max 1 (newStart - start)\<close>; an item whose interval does not
  meet it, or that has the new item's identifier, is left as it is.
\<close>

theorem resolveOverlaps_single_pass:
  "length (items (resolveOverlaps track newItem)) = length (items track) \<and>
   resolveOverlaps track newItem = track\<lparr>items := items (resolveOverlaps track newItem)\<rparr> \<and>
   (\<forall>i<length (items track).
      (item_id (items track ! i) \<noteq> item_id newItem \<and>
       \<not> (startFrame newItem + durationInFrames newItem \<le> startFrame (items track ! i) \<or>
          startFrame newItem \<ge> startFrame (items track ! i) + durationInFrames (items track ! i)) \<and>
       startFrame newItem < startFrame (items track ! i) \<longrightarrow>
         items (resolveOverlaps track newItem) ! i =
           (items track ! i)\<lparr>startFrame := startFrame newItem + durationInFrames newItem\<rparr>) \<and>
      (item_id (items track ! i) \<noteq> item_id newItem \<and>
       \<not> (startFrame newItem + durationInFrames newItem \<le> startFrame (items track ! i) \<or>
          startFrame newItem \<ge> startFrame (items track ! i) + durationInFrames (items track ! i)) \<and>
       \<not> startFrame newItem < startFrame (items track ! i) \<longrightarrow>
         items (resolveOverlaps track newItem) ! i =
           (items track ! i)\<lparr>durationInFrames :=
              max 1 (startFrame newItem - startFrame (items track ! i))\<rparr>) \<and>
      (item_id (items track ! i) \<noteq> item_id newItem \<and>
       (startFrame newItem + durationInFrames newItem \<le> startFrame (items track ! i) \<or>
        startFrame newItem \<ge> startFrame (items track ! i) + durationInFrames (items track ! i)) \<longrightarrow>
         items (resolveOverlaps track newItem) ! i = items track ! i) \<and>
      (item_id (items track ! i) = item_id newItem \<longrightarrow>
         items (resolveOverlaps track newItem) ! i = items track ! i))"
proof (intro conjI allI impI)
  show "length (items (resolveOverlaps track newItem)) = length (items track)"
    by (simp add: resolveOverlaps_def forEachItem_map)
  show "resolveOverlaps track newItem = track\<lparr>items := items (resolveOverlaps track newItem)\<rparr>"
    by (simp add: resolveOverlaps_def)
next
  fix i
  assume "i < length (items track)"
  then have nth: "items (resolveOverlaps track newItem) ! i = resolveItem newItem (items track ! i)"
    by (simp add: resolveOverlaps_def forEachItem_map)
  {
    assume "item_id (items track ! i) \<noteq> item_id newItem \<and>
       \<not> (startFrame newItem + durationInFrames newItem \<le> startFrame (items track ! i) \<or>
          startFrame newItem \<ge> startFrame (items track ! i) + durationInFrames (items track ! i)) \<and>
       startFrame newItem < startFrame (items track ! i)"
    then show "items (resolveOverlaps track newItem) ! i =
           (items track ! i)\<lparr>startFrame := startFrame newItem + durationInFrames newItem\<rparr>"
      unfolding nth by (simp add: resolveItem_def)
  }
  {
    assume "item_id (items track ! i) \<noteq> item_id newItem \<and>
       \<not> (startFrame newItem + durationInFrames newItem \<le> startFrame (items track ! i) \<or>
          startFrame newItem \<ge> startFrame (items track ! i) + durationInFrames (items track ! i)) \<and>
       \<not> startFrame newItem < startFrame (items track ! i)"
    then show "items (resolveOverlaps track newItem) ! i =
           (items track ! i)\<lparr>durationInFrames :=
              max 1 (startFrame newItem - startFrame (items track ! i))\<rparr>"
      unfolding nth by (simp add: resolveItem_def)
  }
  {
    assume "item_id (items track ! i) \<noteq> item_id newItem \<and>
       (startFrame newItem + durationInFrames newItem \<le> startFrame (items track ! i) \<or>
        startFrame newItem \<ge> startFrame (items track ! i) + durationInFrames (items track ! i))"
    then show "items (resolveOverlaps track newItem) ! i = items track ! i"
      unfolding nth by (auto simp add: resolveItem_def)
  }
  assume "item_id (items track ! i) = item_id newItem"
  then show "items (resolveOverlaps track newItem) ! i = items track ! i"
    unfolding nth by (simp add: resolveItem_def)
qed

theorem resolveOverlaps_single_pass_witness:
  "items (resolveOverlaps threeItems (exampleItem ''a'' 5 10)) ! 0 = exampleItem ''b'' 15 10 \<and>
   items (resolveOverlaps threeItems (exampleItem ''a'' 5 10)) ! 1 = exampleItem ''c'' 0 5 \<and>
   items (resolveOverlaps threeItems (exampleItem ''a'' 5 10)) ! 2 = exampleItem ''d'' 30 10"
  using resolveOverlaps_single_pass [of threeItems "exampleItem ''a'' 5 10"]
  by (simp add: threeItems_def exampleItem_def nth_Cons' numeral_2_eq_2 all_less_Suc_eq)

text \<open>
  \<^bold>\<open>C6\<close> (a locked track rejects every item mutation). \<^verbatim>\<open>handleSetProperties\<close> never
  reads the lock flag, which the five mutations of the timeline manager all test:
  \<^verbatim>\<open>edit.set_properties\<close> with \<open>x = 5\<close> on the item of a locked track answers
  \<open>success = true\<close> and moves the item from \<open>x = 0\<close> to \<open>x = 5\<close>.
\<close>

theorem setProperties_ignores_lock:
  "\<exists>res srv' session' track'.
     handleSetProperties lockedServer ''s1'' ''t1'' ''a'' moveRight = Inr (res, srv') \<and>
     success res = Some True \<and>
     getSession srv' ''s1'' = Some session' \<and>
     getTrack (timelineManager session') ''t1'' = Some track' \<and>
     isLocked track' \<and>
     map item_x (items track') = [5] \<and>
     map item_x (items track') \<noteq> map item_x [exampleItem ''a'' 10 40]"
  by (simp add: handleSetProperties_def lockedServer_def lockedTimeline_def importTimeline_def getSession_def
      new_EditingSession_def setProperties_def moveRight_def no_result_def example_defs timeline_defs)

text \<open>
  \<^bold>\<open>C7\<close> (directives run in priority order). On a session with an empty queue, after
  any number of \<^verbatim>\<open>agent.submit_directives\<close> requests and then at least as many
  \<^verbatim>\<open>agent.execute_next\<close> requests as directives were submitted, the directives taken off
  the queue, in the order of the requests, are the stable sort by priority of the
  submissions put end to end: ascending priority, and among equal priorities the order of
  submission. The queue is empty again. When every track of the session has a name, the
  completed list has grown by the identifiers of these directives, in this order, less
  the \<open>add_bgm\<close> directives that came without parameters (their execution throws).
\<close>

theorem directives_run_in_priority_order:
  "pendingDirectives s = [] \<Longrightarrow> length (concat batches) \<le> length ids \<Longrightarrow>
   poppedBy (submitAll s batches) ids = sort_key priority (concat batches) \<and>
   pendingDirectives (executeAll (submitAll s batches) ids) = [] \<and>
   sorted (map priority (sort_key priority (concat batches))) \<and>
   mset (sort_key priority (concat batches)) = mset (concat batches) \<and>
   (\<forall>p. filter (\<lambda>d. priority d = p) (sort_key priority (concat batches)) =
        filter (\<lambda>d. priority d = p) (concat batches)) \<and>
   (tracksNamed s \<longrightarrow>
      completedDirectives (executeAll (submitAll s batches) ids) =
        completedDirectives s @
          map dir_id (filter (\<lambda>d. \<not> lacksParameters d) (sort_key priority (concat batches))))"
proof -
  assume e: "pendingDirectives s = []" and n: "length (concat batches) \<le> length ids"
  have p: "pendingDirectives (submitAll s batches) = sort_key priority (concat batches)"
    using e by (simp add: submitAll_lists)
  have c: "completedDirectives (submitAll s batches) = completedDirectives s"
    by (simp add: submitAll_lists)
  have l: "length (sort_key priority (concat batches)) \<le> length ids"
    using n by simp
  have t: "tracksNamed s \<Longrightarrow> tracksNamed (submitAll s batches)"
    by (induction batches arbitrary: s)
      (simp_all add: tracksNamed_def addDirectives_def updateEditingStatus_def)
  have comp: "tracksNamed s \<longrightarrow>
      completedDirectives (executeAll (submitAll s batches) ids) =
        completedDirectives s @
          map dir_id (filter (\<lambda>d. \<not> lacksParameters d) (sort_key priority (concat batches)))"
    using l by (auto simp add: executeAll_completed [OF t] p c simp del: length_sort)
  from l comp show ?thesis
    by (simp add: poppedBy_take executeAll_pending p sort_key_stable del: length_sort)
qed

theorem directives_run_in_priority_order_witness:
  "poppedBy (submitAll (new_EditingSession ''s1'')
        [[exampleDirective ''d3'' AddText 3, exampleDirective ''d1'' AddBgm 1,
          exampleDirective ''d2'' CutSequence 2]]) [''n1'', ''n2'', ''n3'']
     = [exampleDirective ''d1'' AddBgm 1, exampleDirective ''d2'' CutSequence 2,
        exampleDirective ''d3'' AddText 3] \<and>
   completedDirectives
     (executeAll (submitAll (new_EditingSession ''s1'')
        [[exampleDirective ''d3'' AddText 3, exampleDirective ''d1'' AddBgm 1,
          exampleDirective ''d2'' CutSequence 2]]) [''n1'', ''n2'', ''n3''])
     = [''d1'', ''d2'', ''d3''] \<and>
   completedDirectives
     (executeAll (submitAll (new_EditingSession ''s1'')
        [[exampleDirective ''x'' AddText 1], [exampleDirective ''y'' AddSfx 1]]) [''n1'', ''n2''])
     = [''x'', ''y''] \<and>
   tracksNamed (new_EditingSession ''s1'')"
proof -
  have e: "pendingDirectives (new_EditingSession ''s1'') = []"
    and c: "completedDirectives (new_EditingSession ''s1'') = []"
    and t: "tracksNamed (new_EditingSession ''s1'')"
    by (simp_all add: new_EditingSession_def tracksNamed_def getTracks_def new_TimelineManager_def)
  show ?thesis
    using directives_run_in_priority_order [OF e, of
        "[[exampleDirective ''d3'' AddText 3, exampleDirective ''d1'' AddBgm 1,
          exampleDirective ''d2'' CutSequence 2]]" "[''n1'', ''n2'', ''n3'']"]
      directives_run_in_priority_order [OF e, of
        "[[exampleDirective ''x'' AddText 1], [exampleDirective ''y'' AddSfx 1]]" "[''n1'', ''n2'']"]
    by (simp add: c t exampleDirective_def lacksParameters_def)
qed




text \<open>
  \<^bold>\<open>C9\<close> (what \<^verbatim>\<open>addItemToTrack\<close> logs), as amended. A successful call puts one entry on
  top of the undo stack (dropping the oldest entry when the stack held 100): its type is
  \<open>move\<close>, its parameters carry the action \<open>''add''\<close> and the item as inserted, and it
  names the track and the item. The type of a log entry is one of cut, trim, move, copy,
  delete and split; none of them is called add.
\<close>

theorem addItemToTrack_logs_move:
  "addItemToTrack tm trackId item0 insertFrame opId now = (True, tm') \<Longrightarrow>
   undoStack tm' \<noteq> [] \<and>
   op_kind_name (op_type (last (undoStack tm'))) = ''move'' \<and>
   p_action (parameters (last (undoStack tm'))) = Some ''add'' \<and>
   p_item (parameters (last (undoStack tm'))) =
     Some (case insertFrame of None \<Rightarrow> item0 | Some f \<Rightarrow> item0\<lparr>startFrame := f\<rparr>) \<and>
   op_trackId (last (undoStack tm')) = trackId \<and>
   op_itemId (last (undoStack tm')) = item_id item0 \<and>
   butlast (undoStack tm') =
     (if length (undoStack tm) < 100 then undoStack tm else tl (undoStack tm)) \<and>
   (\<forall>k. op_kind_name k \<in> {''cut'', ''trim'', ''move'', ''copy'', ''delete'', ''split''} \<and>
        op_kind_name k \<noteq> ''add'')"
proof -
  assume a: "addItemToTrack tm trackId item0 insertFrame opId now = (True, tm')"
  then obtain track where t: "getTrack tm trackId = Some track" "\<not> isLocked track"
    by (auto simp: addItemToTrack_def split: option.splits if_splits)
  define item where "item = (case insertFrame of None \<Rightarrow> item0 | Some f \<Rightarrow> item0\<lparr>startFrame := f\<rparr>)"
  define operation where "operation =
     \<lparr>op_id = opId, op_type = Move, op_trackId = trackId, op_itemId = item_id item,
      timestamp = now,
      parameters = no_parameters\<lparr>p_action := Some ''add'', p_item := Some item\<rparr>\<rparr>"
  have id: "item_id item = item_id item0"
    by (simp add: item_def split: option.splits)
  from a t have stack: "undoStack tm' =
      (if length (undoStack tm @ [operation]) > 100 then tl (undoStack tm @ [operation])
       else undoStack tm @ [operation])"
    by (auto simp: addItemToTrack_def recordOperation_def updateTotalDuration_def Let_def
        operation_def item_def)
  have last: "last (undoStack tm') = operation" and ne: "undoStack tm' \<noteq> []"
    and bl: "butlast (undoStack tm') =
     (if length (undoStack tm) < 100 then undoStack tm else tl (undoStack tm))"
    unfolding stack by (cases "undoStack tm"; simp)+
  have kinds: "\<forall>k. op_kind_name k \<in> {''cut'', ''trim'', ''move'', ''copy'', ''delete'', ''split''} \<and>
        op_kind_name k \<noteq> ''add''"
  proof
    fix k show "op_kind_name k \<in> {''cut'', ''trim'', ''move'', ''copy'', ''delete'', ''split''} \<and>
        op_kind_name k \<noteq> ''add''" by (cases k) simp_all
  qed
  show ?thesis
    unfolding last using ne bl kinds id by (simp add: operation_def item_def)
qed

theorem addItemToTrack_logs_move_witness:
  "addItemToTrack oneTrack ''t1'' (exampleItem ''a'' 10 40) None ''o1'' 0 = (True, oneItem) \<and>
   op_kind_name (op_type (last (undoStack oneItem))) = ''move'' \<and>
   p_action (parameters (last (undoStack oneItem))) = Some ''add'' \<and>
   butlast (undoStack oneItem) = []"
proof -
  have a: "addItemToTrack oneTrack ''t1'' (exampleItem ''a'' 10 40) None ''o1'' 0 = (True, oneItem)"
    by (simp add: oneItem_def prod_eq_iff) (simp add: example_defs timeline_defs)
  have e: "undoStack oneTrack = []"
    by (simp add: oneTrack_def createTrack_def new_TimelineManager_def Let_def)
  from addItemToTrack_logs_move [OF a] a show ?thesis
    by (simp add: e)
qed

text \<open>\<^bold>\<open>C9\<close> as first stated fails on the first insert into a new track: the entry
  logged is not of a type called add.\<close>

theorem addItem_logs_move_counterexample:
  "fst (addItemToTrack oneTrack ''t1'' (exampleItem ''a'' 10 40) None ''o1'' 0) = True \<and>
   op_kind_name (op_type (last (undoStack
     (snd (addItemToTrack oneTrack ''t1'' (exampleItem ''a'' 10 40) None ''o1'' 0))))) \<noteq> ''add''"
  by (simp add: example_defs timeline_defs)

text \<open>
  \<^bold>\<open>C10\<close> (the outcome of \<^verbatim>\<open>agent.execute_next\<close> on a non-empty queue), as amended. For a
  session of the server with a directive \<open>d\<close> at the head of its queue,
  \<^verbatim>\<open>handleExecuteNext\<close> always takes \<open>d\<close> off the queue. For the five kinds other than
  \<open>add_bgm\<close>, and for an \<open>add_bgm\<close> directive that has its parameters and either no asset
  or no unnamed track before the first track whose name contains \<open>BGM\<close>, it answers
  \<open>success = true\<close> and appends the identifier of \<open>d\<close> to the completed list. Otherwise
  \<^verbatim>\<open>executeAddBGM\<close> throws, \<^verbatim>\<open>handleExecuteNext\<close> catches the error and answers
  \<open>success = false\<close> with no status: \<open>d\<close> is neither completed nor queued again, and the
  status snapshot is not recomputed.
\<close>

theorem handleExecuteNext_outcome:
  "getSession srv sid = Some session \<Longrightarrow> pendingDirectives session = d # rest \<Longrightarrow>
   (dir_type d \<noteq> AddBgm \<longrightarrow> \<not> throwsOn session d) \<and>
   (\<exists>res srv' session'.
      handleExecuteNext srv sid newId = Inr (res, srv') \<and>
      getSession srv' sid = Some session' \<and>
      pendingDirectives session' = rest \<and>
      (if throwsOn session d
       then success res = Some False \<and> rr_editingStatus res = None \<and>
            completedDirectives session' = completedDirectives session \<and>
            editingStatus session' = editingStatus session
       else success res = Some True \<and>
            completedDirectives session' = completedDirectives session @ [dir_id d]))"
proof -
  assume s: "getSession srv sid = Some session" and p: "pendingDirectives session = d # rest"
  have 1: "dir_type d \<noteq> AddBgm \<longrightarrow> \<not> throwsOn session d"
    by (simp add: throwsOn_def)
  have 2: "\<exists>res srv' session'.
      handleExecuteNext srv sid newId = Inr (res, srv') \<and>
      getSession srv' sid = Some session' \<and>
      pendingDirectives session' = rest \<and>
      (if throwsOn session d
       then success res = Some False \<and> rr_editingStatus res = None \<and>
            completedDirectives session' = completedDirectives session \<and>
            editingStatus session' = editingStatus session
       else success res = Some True \<and>
            completedDirectives session' = completedDirectives session @ [dir_id d])"
  proof (cases "throwsOn session d")
    case True
    from executeNext_throws [OF p True, of newId] obtain e where
      "executeNext session newId =
         (no_result\<lparr>success := Some False,
                    rr_message := Some (''Failed to execute directive: '' @ errorText e)\<rparr>,
          session\<lparr>pendingDirectives := rest\<rparr>)"
      by blast
    with s True show ?thesis
      by (simp add: handleExecuteNext_def getSession_def update_conv' no_result_def)
  next
    case False
    from executeNext_runs [OF p False, of newId] obtain tm' res where
      "executeNext session newId =
        (res, markDirectiveCompleted (session\<lparr>pendingDirectives := rest, timelineManager := tm'\<rparr>) (dir_id d))"
      and "success res = Some True"
      by (auto simp: no_result_def)
    with s False show ?thesis
      by (simp add: handleExecuteNext_def getSession_def update_conv' markDirectiveCompleted_def
          updateEditingStatus_def)
  qed
  from 1 2 show ?thesis by blast
qed

theorem handleExecuteNext_outcome_witness:
  "(\<exists>res srv' session'.
     handleExecuteNext queuedServer ''s1'' ''n1'' = Inr (res, srv') \<and>
     success res = Some True \<and>
     getSession srv' ''s1'' = Some session' \<and>
     completedDirectives session' = [''d1''] \<and>
     pendingDirectives session' = []) \<and>
   (\<exists>res srv' session'.
     handleExecuteNext bareServer ''s1'' ''n1'' = Inr (res, srv') \<and>
     success res = Some False \<and>
     getSession srv' ''s1'' = Some session' \<and>
     completedDirectives session' = [] \<and>
     pendingDirectives session' = [])"
proof -
  let ?session = "addDirectives (new_EditingSession ''s1'') [exampleDirective ''d1'' AddBgm 1]"
  let ?bare = "addDirectives (new_EditingSession ''s1'') [bareDirective ''d1'' AddBgm 1]"
  have s: "getSession queuedServer ''s1'' = Some ?session"
    by (simp add: queuedServer_def getSession_def)
  have p: "pendingDirectives ?session = [exampleDirective ''d1'' AddBgm 1]"
    by (simp add: new_EditingSession_def)
  have s': "getSession bareServer ''s1'' = Some ?bare"
    by (simp add: bareServer_def getSession_def)
  have p': "pendingDirectives ?bare = [bareDirective ''d1'' AddBgm 1]"
    by (simp add: new_EditingSession_def)
  have c: "completedDirectives (new_EditingSession ''s1'') = []"
    by (simp add: new_EditingSession_def)
  have i: "dir_id (exampleDirective ''d1'' AddBgm 1) = ''d1''"
    by (simp add: exampleDirective_def)
  have ok: "\<not> throwsOn ?session (exampleDirective ''d1'' AddBgm 1)"
    by (simp add: throwsOn_def exampleDirective_def)
  have bad: "throwsOn ?bare (bareDirective ''d1'' AddBgm 1)"
    by (simp add: throwsOn_def bareDirective_def)
  from handleExecuteNext_outcome [OF s p, of "''n1''"] handleExecuteNext_outcome [OF s' p', of "''n1''"]
  show ?thesis
    by (simp add: c i ok bad) blast
qed

text \<open>\<^bold>\<open>C10\<close> as first stated fails on an \<open>add_bgm\<close> directive submitted without
  parameters, and on one with an asset in a session that has a track created without a
  name: the queue is not empty, the answer is \<open>success = false\<close>, and the directive is
  dropped.\<close>

theorem execute_next_can_fail_counterexample:
  "(\<exists>session. getSession bareServer ''s1'' = Some session \<and> pendingDirectives session \<noteq> []) \<and>
   (\<exists>res srv' session'.
      handleExecuteNext bareServer ''s1'' ''n1'' = Inr (res, srv') \<and>
      success res = Some False \<and>
      rr_message res = Some ''Failed to execute directive: TypeError: Cannot read properties of undefined (reading 'asset')'' \<and>
      getSession srv' ''s1'' = Some session' \<and>
      completedDirectives session' = [] \<and> pendingDirectives session' = []) \<and>
   (\<exists>session. getSession unnamedServer ''s1'' = Some session \<and> pendingDirectives session \<noteq> []) \<and>
   (\<exists>res srv' session'.
      handleExecuteNext unnamedServer ''s1'' ''n1'' = Inr (res, srv') \<and>
      success res = Some False \<and>
      getSession srv' ''s1'' = Some session' \<and>
      completedDirectives session' = [] \<and> pendingDirectives session' = [])"
  by (simp add: bareServer_def unnamedServer_def getSession_def handleExecuteNext_def executeNext_def
      getNextDirective_def executeDirective_def executeAddBGM_def bareDirective_def
      addDirectives_def updateEditingStatus_def
      assetDirective_def exampleAsset_def new_EditingSession_def new_TimelineManager_def
      createTrack_def getTracks_def no_result_def Let_def)

section \<open>Further properties\<close>

text \<open>
  \<^bold>\<open>X1\<close>. The five item mutations of the timeline manager refuse a locked track: each
  returns false and leaves the manager as it was, and so does a move from another track
  into the locked one.
\<close>

theorem locked_track_rejects_timeline_mutations:
  "getTrack tm trackId = Some track \<Longrightarrow> isLocked track \<Longrightarrow>
   addItemToTrack tm trackId item insertFrame opId now = (False, tm) \<and>
   removeItemFromTrack tm trackId itemId opId now = (False, tm) \<and>
   moveItem tm trackId itemId newStartFrame newTrackId opId now = (False, tm) \<and>
   (crossTarget otherId otherTarget = Some trackId \<longrightarrow>
      moveItem tm otherId itemId newStartFrame otherTarget opId now = (False, tm)) \<and>
   trimItem tm trackId itemId trimStart trimEnd opId now = (False, tm) \<and>
   splitItem tm trackId itemId splitFrame newId opId now = (False, tm)"
proof -
  assume t: "getTrack tm trackId = Some track" "isLocked track"
  have "crossTarget otherId otherTarget = Some trackId \<longrightarrow>
      moveItem tm otherId itemId newStartFrame otherTarget opId now = (False, tm)"
    using t by (auto simp: moveItem_def Let_def split: option.splits)
  with t show ?thesis
    by (simp add: addItemToTrack_def removeItemFromTrack_def moveItem_def trimItem_def splitItem_def)
qed

theorem locked_track_rejects_timeline_mutations_witness:
  "addItemToTrack twoTracks ''t1'' (exampleItem ''z'' 0 5) None ''o1'' 0 = (False, twoTracks) \<and>
   removeItemFromTrack twoTracks ''t1'' ''a'' ''o1'' 0 = (False, twoTracks) \<and>
   moveItem twoTracks ''t1'' ''a'' 0 None ''o1'' 0 = (False, twoTracks) \<and>
   crossTarget ''t2'' (Some ''t1'') = Some ''t1'' \<and>
   moveItem twoTracks ''t2'' ''b'' 0 (Some ''t1'') ''o1'' 0 = (False, twoTracks) \<and>
   trimItem twoTracks ''t1'' ''a'' (Some 20) None ''o1'' 0 = (False, twoTracks) \<and>
   splitItem twoTracks ''t1'' ''a'' 30 ''n'' ''o1'' 0 = (False, twoTracks)"
proof -
  have t: "getTrack twoTracks ''t1'' =
      Some \<lparr>track_id = ''t1'', track_name = Some ''Video Track'', track_type = VideoTrack,
            items = [exampleItem ''a'' 10 40], isLocked = True, isVisible = True,
            volume = None\<rparr>"
    by (simp add: twoTracks_def importTimeline_def getTrack_def new_TimelineManager_def)
  have c: "crossTarget ''t2'' (Some ''t1'') = Some ''t1''"
    by (simp add: crossTarget_def)
  show ?thesis
    using locked_track_rejects_timeline_mutations [OF t, of "exampleItem ''z'' 0 5" None "''o1''" 0
        "''a''" 0 None "''t2''" "Some ''t1''" "Some 20" None 30 "''n''"]
      locked_track_rejects_timeline_mutations [OF t, of "exampleItem ''z'' 0 5" None "''o1''" 0
        "''b''" 0 None "''t2''" "Some ''t1''" "Some 20" None 30 "''n''"] c
    by simp
qed

text \<open>
  \<^bold>\<open>X2\<close>. After a successful \<^verbatim>\<open>addItemToTrack\<close>, \<^verbatim>\<open>removeItemFromTrack\<close>, \<^verbatim>\<open>moveItem\<close> or
  \<^verbatim>\<open>trimItem\<close>, \<^verbatim>\<open>getTotalDuration()\<close> is the largest end frame of the items of all
  tracks, and 0 when there is no item or every item ends before frame 0.
\<close>

theorem item_mutations_refresh_total_duration:
  "addItemToTrack tm trackId item insertFrame opId now = (True, tm') \<or>
   removeItemFromTrack tm trackId itemId opId now = (True, tm') \<or>
   moveItem tm trackId itemId newStartFrame newTrackId opId now = (True, tm') \<or>
   trimItem tm trackId itemId trimStart trimEnd opId now = (True, tm') \<Longrightarrow>
   getTotalDuration tm' = Max (insert 0 (itemEnd ` set (allItems tm')))"
proof (elim disjE)
  assume "addItemToTrack tm trackId item insertFrame opId now = (True, tm')"
  then obtain X operation where "tm' = recordOperation (updateTotalDuration X) operation"
    by (auto simp: addItemToTrack_def Let_def split: option.splits if_splits)
  then show ?thesis by (simp only: recorded_update_current)
next
  assume "removeItemFromTrack tm trackId itemId opId now = (True, tm')"
  then obtain X operation where "tm' = recordOperation (updateTotalDuration X) operation"
    by (auto simp: removeItemFromTrack_def Let_def split: option.splits if_splits)
  then show ?thesis by (simp only: recorded_update_current)
next
  assume "moveItem tm trackId itemId newStartFrame newTrackId opId now = (True, tm')"
  then obtain X operation where "tm' = recordOperation (updateTotalDuration X) operation"
    by (auto simp: moveItem_def Let_def split: option.splits if_splits)
  then show ?thesis by (simp only: recorded_update_current)
next
  assume "trimItem tm trackId itemId trimStart trimEnd opId now = (True, tm')"
  then obtain X operation where "tm' = recordOperation (updateTotalDuration X) operation"
    by (auto simp: trimItem_def Let_def split: option.splits if_splits)
  then show ?thesis by (simp only: recorded_update_current)
qed

theorem item_mutations_refresh_total_duration_witness:
  "addItemToTrack oneTrack ''t1'' (exampleItem ''a'' 10 40) None ''o1'' 0 = (True, oneItem) \<and>
   getTotalDuration oneItem = 50 \<and>
   Max (insert 0 (itemEnd ` set (allItems oneItem))) = 50"
proof -
  have a: "addItemToTrack oneTrack ''t1'' (exampleItem ''a'' 10 40) None ''o1'' 0 = (True, oneItem)"
    by (simp add: oneItem_def prod_eq_iff) (simp add: example_defs timeline_defs)
  have d: "getTotalDuration oneItem = 50"
    by (simp add: example_defs timeline_defs)
  from item_mutations_refresh_total_duration [OF disjI1, OF a] a d show ?thesis
    by simp
qed

end
